theory Spec2Isabelle
  imports Main
begin

section \<open>Release-bundle creation sources: a shallow embedding\<close>

text \<open>
  The development follows \<^verbatim>\<open>lifecycle/commands/createcommon.go\<close>, the update command
  and the creation-spec resolution of the lifecycle command-line layer. Go strings are byte
  sequences and are modelled as \<^typ>\<open>string\<close>; a Go \<^verbatim>\<open>error\<close> is a value of the
  datatype \<open>error\<close>, \<^verbatim>\<open>nil\<close> being \<open>None\<close>.
\<close>

subsection \<open>Errors\<close>

text \<open>
  \<open>Err msg\<close> is an error built from a message (\<^verbatim>\<open>errors.New\<close>, \<^verbatim>\<open>CheckErrorf\<close>,
  \<^verbatim>\<open>fmt.Errorf\<close>); \<open>NumError fn input\<close> is the syntax error of the \<^verbatim>\<open>strconv\<close>
  function \<open>fn\<close> at \<open>input\<close>; \<open>Wrapped prefix e\<close> is a message that ends with the text of
  the error \<open>e\<close>; \<open>Panic\<close> is a run-time panic.
\<close>

datatype error = Err string | NumError string string | Wrapped string error | Panic string

subsection \<open>Functions of the Go standard library\<close>

text \<open>\<^verbatim>\<open>strings.Split(s, sep)\<close> for a one-byte separator: never the empty list.\<close>

fun strings_Split :: "string \<Rightarrow> char \<Rightarrow> string list" where
  "strings_Split [] sep = [ [] ]"
| "strings_Split (c # cs) sep =
     (if c = sep then [] # strings_Split cs sep
      else (case strings_Split cs sep of
              [] \<Rightarrow> [ [c] ]
            | piece # pieces \<Rightarrow> (c # piece) # pieces))"

text \<open>\<^verbatim>\<open>strings.SplitN(s, sep, 2)\<close> for a one-byte separator: the string is cut at the
  first separator, if there is one.\<close>

definition strings_SplitN2 :: "string \<Rightarrow> char \<Rightarrow> string list" where
  "strings_SplitN2 s sep =
     (if sep \<in> set s
      then [takeWhile (\<lambda>c. c \<noteq> sep) s, tl (dropWhile (\<lambda>c. c \<noteq> sep) s)]
      else [s])"

text \<open>
  The UTF-8 encodings of the code points with the Unicode property White_Space, which is
  what \<^verbatim>\<open>strings.TrimSpace\<close> removes: U+0009 to U+000D, U+0020, U+0085, U+00A0, U+1680,
  U+2000 to U+200A, U+2028, U+2029, U+202F, U+205F and U+3000.
\<close>

definition whiteSpace :: "string list" where
  "whiteSpace =
     [ [CHR 0x09], [CHR 0x0A], [CHR 0x0B], [CHR 0x0C], [CHR 0x0D], [CHR 0x20],
      [CHR 0xC2, CHR 0x85], [CHR 0xC2, CHR 0xA0],
      [CHR 0xE1, CHR 0x9A, CHR 0x80],
      [CHR 0xE2, CHR 0x80, CHR 0x80], [CHR 0xE2, CHR 0x80, CHR 0x81],
      [CHR 0xE2, CHR 0x80, CHR 0x82], [CHR 0xE2, CHR 0x80, CHR 0x83],
      [CHR 0xE2, CHR 0x80, CHR 0x84], [CHR 0xE2, CHR 0x80, CHR 0x85],
      [CHR 0xE2, CHR 0x80, CHR 0x86], [CHR 0xE2, CHR 0x80, CHR 0x87],
      [CHR 0xE2, CHR 0x80, CHR 0x88], [CHR 0xE2, CHR 0x80, CHR 0x89],
      [CHR 0xE2, CHR 0x80, CHR 0x8A],
      [CHR 0xE2, CHR 0x80, CHR 0xA8], [CHR 0xE2, CHR 0x80, CHR 0xA9],
      [CHR 0xE2, CHR 0x80, CHR 0xAF], [CHR 0xE2, CHR 0x81, CHR 0x9F],
      [CHR 0xE3, CHR 0x80, CHR 0x80] ]"

text \<open>The first of the encodings \<open>ws\<close> that the string starts with, if any.\<close>

fun leadingSpace :: "string list \<Rightarrow> string \<Rightarrow> string option" where
  "leadingSpace [] s = None"
| "leadingSpace (w # ws) s =
     (if take (length w) s = w then Some w else leadingSpace ws s)"

text \<open>Removing the leading white space: at most one code point per byte of the string,
  so \<open>length s\<close> rounds are enough.\<close>

fun trimLeft :: "nat \<Rightarrow> string list \<Rightarrow> string \<Rightarrow> string" where
  "trimLeft 0 ws s = s"
| "trimLeft (Suc n) ws s =
     (case leadingSpace ws s of
        None \<Rightarrow> s
      | Some w \<Rightarrow> trimLeft n ws (drop (length w) s))"

definition strings_TrimSpace :: "string \<Rightarrow> string" where
  "strings_TrimSpace s =
     (let l = trimLeft (length s) whiteSpace s
      in rev (trimLeft (length l) (map rev whiteSpace) (rev l)))"

text \<open>\<^verbatim>\<open>strconv.ParseBool\<close>: \<open>None\<close> is the syntax error.\<close>

definition strconv_ParseBool :: "string \<Rightarrow> bool option" where
  "strconv_ParseBool str =
     (if str \<in> set [''1'', ''t'', ''T'', ''TRUE'', ''true'', ''True''] then Some True
      else if str \<in> set [''0'', ''f'', ''F'', ''FALSE'', ''false'', ''False''] then Some False
      else None)"

subsection \<open>Functions of the JFrog client and core libraries\<close>

text \<open>
  These belong to libraries the repository imports. \<^verbatim>\<open>clientutils.StringToBool\<close>: the
  default for the empty string, else \<^verbatim>\<open>strconv.ParseBool\<close>, whose result on an error is
  \<^verbatim>\<open>false\<close>.
\<close>

definition StringToBool :: "string \<Rightarrow> bool \<Rightarrow> bool \<times> error option" where
  "StringToBool boolVal defaultValue =
     (if length boolVal > 0
      then (case strconv_ParseBool boolVal of
              Some result \<Rightarrow> (result, None)
            | None \<Rightarrow> (False, Some (NumError ''ParseBool'' boolVal)))
      else (defaultValue, None))"

text \<open>\<^verbatim>\<open>coreutils.SumTrueValues\<close>: how many of the booleans are true.\<close>

definition SumTrueValues :: "bool list \<Rightarrow> nat" where
  "SumTrueValues boolArr = length (filter (\<lambda>b. b) boolArr)"

text \<open>\<^verbatim>\<open>strings.Join\<close>.\<close>

fun strings_Join :: "string list \<Rightarrow> string \<Rightarrow> string" where
  "strings_Join [] sep = []"
| "strings_Join [x] sep = x"
| "strings_Join (x # y # ys) sep = x @ sep @ strings_Join (y # ys) sep"

text \<open>
  \<^verbatim>\<open>coreutils.ListToText\<close>: \<open>["a","b","c"]\<close> becomes \<open>a, b and c\<close>, a list of one string
  is that string. On the empty list the slice expression \<^verbatim>\<open>list[0:len(list)-1]\<close> panics.
\<close>

definition ListToText :: "string list \<Rightarrow> error + string" where
  "ListToText list =
     (if length list = 1 then Inr (list ! 0)
      else if length list = 0 then Inl (Panic ''slice bounds out of range'')
      else Inr (strings_Join (take (length list - 1) list) '', '' @ '' and ''
                @ list ! (length list - 1)))"

subsection \<open>Source types and file groups\<close>

text \<open>\<^verbatim>\<open>services.SourceType\<close> is a string type; its five constants follow.\<close>

type_synonym SourceType = string

definition services_Aql :: SourceType where "services_Aql = ''aql''"
definition services_Artifacts :: SourceType where "services_Artifacts = ''artifacts''"
definition services_Builds :: SourceType where "services_Builds = ''builds''"
definition services_ReleaseBundles :: SourceType where "services_ReleaseBundles = ''release_bundles''"
definition services_Packages :: SourceType where "services_Packages = ''packages''"

text \<open>
  \<^verbatim>\<open>spec.File\<close>, with the fields that the lifecycle commands read. The nested structs
  \<^verbatim>\<open>Aql\<close> and \<^verbatim>\<open>PathMapping\<close> are flattened into \<open>Aql_ItemsFind\<close>,
  \<open>PathMapping_Input\<close> and \<open>PathMapping_Output\<close>.
\<close>

record File =
  Aql_ItemsFind :: string
  PathMapping_Input :: string
  PathMapping_Output :: string
  Pattern :: string
  Exclusions :: "string list"
  Target :: string
  Explode :: string
  BypassArchiveInspection :: string
  Props :: string
  ExcludeProps :: string
  SortOrder :: string
  SortBy :: "string list"
  Offset :: int
  Limit :: int
  Build :: string
  Project :: string
  ExcludeArtifacts :: string
  IncludeDeps :: string
  Bundle :: string
  PublicGpgKey :: string
  Recursive :: string
  Regexp :: string
  Ant :: string
  Archive :: string
  Symlinks :: string
  Transitive :: string
  Package :: string
  Version :: string
  Type :: string
  RepoKey :: string

text \<open>The zero value of \<^verbatim>\<open>spec.File\<close>.\<close>

definition emptyFile :: File where
  "emptyFile = \<lparr> Aql_ItemsFind = [], PathMapping_Input = [], PathMapping_Output = [],
     Pattern = [], Exclusions = [], Target = [], Explode = [], BypassArchiveInspection = [],
     Props = [], ExcludeProps = [], SortOrder = [], SortBy = [], Offset = 0, Limit = 0,
     Build = [], Project = [], ExcludeArtifacts = [], IncludeDeps = [], Bundle = [],
     PublicGpgKey = [], Recursive = [], Regexp = [], Ant = [], Archive = [], Symlinks = [],
     Transitive = [], Package = [], Version = [], Type = [], RepoKey = [] \<rparr>"

text \<open>The boolean getters of \<^verbatim>\<open>spec.File\<close>: each is \<open>StringToBool\<close> of its field.\<close>

definition IsIncludeDeps :: "File \<Rightarrow> bool \<Rightarrow> bool \<times> error option" where
  "IsIncludeDeps f defaultValue = StringToBool (IncludeDeps f) defaultValue"

definition IsRecursive :: "File \<Rightarrow> bool \<Rightarrow> bool \<times> error option" where
  "IsRecursive f defaultValue = StringToBool (Recursive f) defaultValue"

definition IsExcludeArtifacts :: "File \<Rightarrow> bool \<Rightarrow> bool \<times> error option" where
  "IsExcludeArtifacts f defaultValue = StringToBool (ExcludeArtifacts f) defaultValue"

definition IsSymlinks :: "File \<Rightarrow> bool \<Rightarrow> bool \<times> error option" where
  "IsSymlinks f defaultValue = StringToBool (Symlinks f) defaultValue"

definition IsExplode :: "File \<Rightarrow> bool \<Rightarrow> bool \<times> error option" where
  "IsExplode f defaultValue = StringToBool (Explode f) defaultValue"

definition IsBypassArchiveInspection :: "File \<Rightarrow> bool \<Rightarrow> bool \<times> error option" where
  "IsBypassArchiveInspection f defaultValue = StringToBool (BypassArchiveInspection f) defaultValue"

definition IsTransitive :: "File \<Rightarrow> bool \<Rightarrow> bool \<times> error option" where
  "IsTransitive f defaultValue = StringToBool (Transitive f) defaultValue"

subsection \<open>The messages of \<^verbatim>\<open>createcommon.go\<close>\<close>

definition missingCreationSourcesErrMsg :: string where
  "missingCreationSourcesErrMsg =
     ''unexpected err while validating spec - could not detect any creation sources''"

definition multipleCreationSourcesErrMsg :: string where
  "multipleCreationSourcesErrMsg =
     ''multiple creation sources were detected in separate spec files. Only a single creation source should be provided. Detected:''"

definition singleAqlErrMsg :: string where
  "singleAqlErrMsg = ''only a single aql query can be provided''"

definition unsupportedCreationSourceMethod :: string where
  "unsupportedCreationSourceMethod =
     ''creation source 'package' is not supported in current version''"

definition unsupportedFieldsErrMsg :: string where
  "unsupportedFieldsErrMsg =
     ''unsupported fields were provided in file spec. release bundle creation file spec only supports the following fields: 'aql', 'build', 'includeDeps', 'bundle', 'project', 'pattern', 'exclusions', 'props', 'excludeProps' and 'recursive''
     @ [CHR 0x27]"

definition exactlyOneCreationSourceErrMsg :: string where
  "exactlyOneCreationSourceErrMsg =
     ''exactly one creation source should be defined per file (aql, builds, release bundles or pattern (artifacts))''"

subsection \<open>The field validator\<close>

text \<open>The discriminators and field tests that \<^verbatim>\<open>validateFile\<close> computes first.\<close>

definition isAql :: "File \<Rightarrow> bool" where
  "isAql file = (length (Aql_ItemsFind file) > 0)"

definition isBuild :: "File \<Rightarrow> bool" where
  "isBuild file = (length (Build file) > 0)"

definition isIncludeDeps :: "File \<Rightarrow> bool" where
  "isIncludeDeps file = fst (IsIncludeDeps file False)"

definition isBundle :: "File \<Rightarrow> bool" where
  "isBundle file = (length (Bundle file) > 0)"

definition isProject :: "File \<Rightarrow> bool" where
  "isProject file = (length (Project file) > 0)"

definition isPackage :: "File \<Rightarrow> bool" where
  "isPackage file = (length (Package file) > 0)"

definition isPattern :: "File \<Rightarrow> bool" where
  "isPattern file = (length (Pattern file) > 0)"

definition isExclusions :: "File \<Rightarrow> bool" where
  "isExclusions file = (length (Exclusions file) > 0 \<and> length (Exclusions file ! 0) > 0)"

definition isProps :: "File \<Rightarrow> bool" where
  "isProps file = (length (Props file) > 0)"

definition isExcludeProps :: "File \<Rightarrow> bool" where
  "isExcludeProps file = (length (ExcludeProps file) > 0)"

text \<open>The condition of the first \<^verbatim>\<open>if\<close>: one of the fields that no creation source supports.\<close>

definition isUnsupported :: "File \<Rightarrow> bool" where
  "isUnsupported file =
     (let isPathMapping = (length (PathMapping_Input file) > 0 \<or> length (PathMapping_Output file) > 0);
          isTarget = (length (Target file) > 0);
          isSortOrder = (length (SortOrder file) > 0);
          isSortBy = (length (SortBy file) > 0);
          isExcludeArtifacts = fst (IsExcludeArtifacts file False);
          isGPGKey = (length (PublicGpgKey file) > 0);
          isOffset = (Offset file > 0);
          isLimit = (Limit file > 0);
          isArchive = (length (Archive file) > 0);
          isSymlinks = fst (IsSymlinks file False);
          isRegexp = (Regexp file = ''true'');
          isAnt = (Ant file = ''true'');
          isExplode = fst (IsExplode file False);
          isBypassArchiveInspection = fst (IsBypassArchiveInspection file False);
          isTransitive = fst (IsTransitive file False)
      in isPathMapping \<or> isTarget \<or> isSortOrder \<or> isSortBy \<or> isExcludeArtifacts \<or> isGPGKey
         \<or> isOffset \<or> isLimit \<or> isSymlinks \<or> isArchive \<or> isAnt \<or> isRegexp \<or> isExplode
         \<or> isBypassArchiveInspection \<or> isTransitive)"

definition validateCreationSource :: "bool list \<Rightarrow> string \<Rightarrow> error option" where
  "validateCreationSource unsupportedFields errMsg =
     (if SumTrueValues unsupportedFields > 0 then Some (Err errMsg) else None)"

text \<open>
  \<^verbatim>\<open>validateFile\<close> returns the pair of Go: a source type (empty on the early exits) and
  an error.
\<close>

definition validateFile :: "File \<Rightarrow> bool \<Rightarrow> SourceType \<times> error option" where
  "validateFile file packageAndMultiSourceSupported =
     (case IsRecursive file True of
        (_, Some err) \<Rightarrow>
          ([], Some (Wrapped ''invalid value provided to the 'recursive' field. error: '' err))
      | (isRecursive, None) \<Rightarrow>
          if isUnsupported file then ([], Some (Err unsupportedFieldsErrMsg))
          else if \<not> packageAndMultiSourceSupported
                  \<and> SumTrueValues [isAql file, isBuild file, isBundle file, isPattern file] \<noteq> 1
          then ([], Some (Err exactlyOneCreationSourceErrMsg))
          else if isAql file then
            (services_Aql,
             validateCreationSource
               [isIncludeDeps file, isProject file, isExclusions file, isProps file,
                isExcludeProps file, \<not> isRecursive]
               ''aql creation source supports no other fields'')
          else if isBuild file then
            (services_Builds,
             validateCreationSource
               [isExclusions file, isProps file, isExcludeProps file, \<not> isRecursive]
               ''builds creation source only supports the 'includeDeps' and 'project' fields'')
          else if isBundle file then
            (services_ReleaseBundles,
             validateCreationSource
               [isIncludeDeps file, isExclusions file, isProps file, isExcludeProps file,
                \<not> isRecursive]
               ''release bundles creation source only supports the 'project' field'')
          else if isPattern file then
            (services_Artifacts,
             validateCreationSource
               [isIncludeDeps file, isProject file]
               ''release bundles creation source only supports the 'exclusions', 'props', 'excludeProps' and 'recursive' fields'')
          else if isPackage file then
            (services_Packages,
             validateCreationSource
               [isIncludeDeps file, isExclusions file, isProps file, isExcludeProps file,
                \<not> isRecursive, isProject file]
               ''release bundles creation source only supports the 'version', 'type', 'repoKey' fields'')
          else ([], Some (Err ''unexpected err in spec validation'')))"

subsection \<open>The source type detector\<close>

fun detectSourceTypesFromSpec :: "File list \<Rightarrow> bool \<Rightarrow> error + SourceType list" where
  "detectSourceTypesFromSpec [] multiSrcAndPackageSupported = Inr []"
| "detectSourceTypesFromSpec (file # files) multiSrcAndPackageSupported =
     (case validateFile file multiSrcAndPackageSupported of
        (_, Some err) \<Rightarrow> Inl err
      | (sourceType, None) \<Rightarrow>
          (case detectSourceTypesFromSpec files multiSrcAndPackageSupported of
             Inl err \<Rightarrow> Inl err
           | Inr detectedCreationSources \<Rightarrow> Inr (sourceType # detectedCreationSources)))"

definition generateSingleCreationSourceErr :: "SourceType list \<Rightarrow> error" where
  "generateSingleCreationSourceErr detectedCreationSources =
     (case ListToText detectedCreationSources of
        Inl panic \<Rightarrow> panic
      | Inr text \<Rightarrow> Err (multipleCreationSourcesErrMsg @ '' '' @ [CHR 0x27] @ text @ [CHR 0x27]))"

text \<open>
  The loop of \<^verbatim>\<open>validateCreationSources\<close> over the elements still to visit; \<open>detected\<close>
  is the whole list, \<open>aqlSrcCnt\<close> the count so far. \<open>Inl\<close> is an early return.
\<close>

fun validateCreationSourcesLoop ::
  "SourceType list \<Rightarrow> bool \<Rightarrow> SourceType list \<Rightarrow> nat \<Rightarrow> error + nat" where
  "validateCreationSourcesLoop detected multipleSourcesAndPackagesSupported [] aqlSrcCnt =
     Inr aqlSrcCnt"
| "validateCreationSourcesLoop detected multipleSourcesAndPackagesSupported (d # rest) aqlSrcCnt =
     (let aqlSrcCnt' = (if d = services_Aql then aqlSrcCnt + 1 else aqlSrcCnt)
      in if \<not> multipleSourcesAndPackagesSupported \<and> d = services_Packages
         then Inl (Err unsupportedCreationSourceMethod)
         else if \<not> multipleSourcesAndPackagesSupported \<and> d \<noteq> detected ! 0
         then Inl (generateSingleCreationSourceErr detected)
         else validateCreationSourcesLoop detected multipleSourcesAndPackagesSupported rest aqlSrcCnt')"

definition validateCreationSources :: "SourceType list \<Rightarrow> bool \<Rightarrow> error option" where
  "validateCreationSources detectedCreationSources multipleSourcesAndPackagesSupported =
     (if length detectedCreationSources = 0 then Some (Err missingCreationSourcesErrMsg)
      else (case validateCreationSourcesLoop detectedCreationSources
                   multipleSourcesAndPackagesSupported detectedCreationSources 0 of
              Inl err \<Rightarrow> Some err
            | Inr aqlSrcCnt \<Rightarrow>
                if aqlSrcCnt > 1 then Some (Err singleAqlErrMsg) else None))"

definition validateAndIdentifyRbCreationSpec :: "File list \<Rightarrow> bool \<Rightarrow> error + SourceType list" where
  "validateAndIdentifyRbCreationSpec files multipleSourcesAndPackageSupported =
     (if length files = 0 then Inl (Err ''spec must include at least one file group'')
      else (case detectSourceTypesFromSpec files multipleSourcesAndPackageSupported of
              Inl err \<Rightarrow> Inl err
            | Inr detectedCreationSources \<Rightarrow>
                (case validateCreationSources detectedCreationSources
                        multipleSourcesAndPackageSupported of
                   Some err \<Rightarrow> Inl err
                 | None \<Rightarrow> Inr detectedCreationSources)))"

subsection \<open>Source payloads\<close>

text \<open>
  The payload structs of \<^verbatim>\<open>lifecycle/services\<close>. \<open>PackageRepositoryKey\<close> is the
  \<^verbatim>\<open>RepositoryKey\<close> of a package source.
\<close>

record BuildSource =
  BuildRepository :: string
  BuildName :: string
  BuildNumber :: string
  IncludeDependencies :: bool

record ReleaseBundleSource =
  ProjectKey :: string
  RepositoryKey :: string
  ReleaseBundleName :: string
  ReleaseBundleVersion :: string

record ArtifactSource =
  Path :: string
  Sha256 :: string

record PackageSource =
  PackageName :: string
  PackageVersion :: string
  PackageType :: string
  PackageRepositoryKey :: string

record RbSource =
  SourceType :: SourceType
  Builds :: "BuildSource list"
  ReleaseBundles :: "ReleaseBundleSource list"
  Artifacts :: "ArtifactSource list"
  Packages :: "PackageSource list"
  Aql :: string

text \<open>The zero value of \<^verbatim>\<open>services.RbSource\<close>, the start of every struct literal.\<close>

definition emptyRbSource :: RbSource where
  "emptyRbSource = \<lparr> SourceType = [], Builds = [], ReleaseBundles = [], Artifacts = [],
     Packages = [], Aql = [] \<rparr>"

subsection \<open>The repository key of release-bundle sources\<close>

text \<open>
  \<^verbatim>\<open>updateReleaseBundleRepoKeyWithProject\<close> writes through the slice; the model returns
  the list after the call. Each write depends on the written element alone and is
  idempotent, so elements that share storage end with the value computed here.
\<close>

fun updateReleaseBundles :: "ReleaseBundleSource list \<Rightarrow> ReleaseBundleSource list" where
  "updateReleaseBundles [] = []"
| "updateReleaseBundles (rb # rbs) =
     (if ProjectKey rb \<noteq> []
      then rb\<lparr>RepositoryKey := ProjectKey rb @ ''-release-bundles-v2''\<rparr>
      else rb) # updateReleaseBundles rbs"

fun updateSources :: "RbSource list \<Rightarrow> RbSource list" where
  "updateSources [] = []"
| "updateSources (s # ss) =
     s\<lparr>ReleaseBundles := updateReleaseBundles (ReleaseBundles s)\<rparr> # updateSources ss"

definition updateReleaseBundleRepoKeyWithProject :: "RbSource list \<Rightarrow> RbSource list" where
  "updateReleaseBundleRepoKeyWithProject sources =
     (if length sources = 0 \<or> SourceType (sources ! 0) \<noteq> ''release_bundles'' then sources
      else updateSources sources)"

subsection \<open>Sources from the command line\<close>

text \<open>The warnings written so far by \<^verbatim>\<open>log.Warn\<close>.\<close>

type_synonym log = "string list"

text \<open>Reading a Go map: the zero value for a missing key.\<close>

definition mapGet :: "(string \<rightharpoonup> string) \<Rightarrow> string \<Rightarrow> string" where
  "mapGet m k = (case m k of None \<Rightarrow> [] | Some v \<Rightarrow> v)"

fun parseKeyValueStringLoop ::
  "string list \<Rightarrow> (string \<rightharpoonup> string) \<Rightarrow> log \<Rightarrow> (string \<rightharpoonup> string) \<times> log" where
  "parseKeyValueStringLoop [] result lg = (result, lg)"
| "parseKeyValueStringLoop (pair # pairs) result lg =
     (let kv = strings_SplitN2 pair (CHR ''='')
      in if length kv \<noteq> 2
         then parseKeyValueStringLoop pairs result
                (lg @ [''Inappropriate format, it should be k=v''])
         else parseKeyValueStringLoop pairs
                (result(strings_TrimSpace (kv ! 0) \<mapsto> strings_TrimSpace (kv ! 1))) lg)"

definition parseKeyValueString :: "string \<Rightarrow> log \<Rightarrow> (string \<rightharpoonup> string) \<times> log" where
  "parseKeyValueString input lg =
     parseKeyValueStringLoop (strings_Split input (CHR '','')) Map.empty lg"

text \<open>
  The collaborators outside the repository, as parameters of the model:
  the build-info repository of a project, the parser of \<^verbatim>\<open>name/version\<close> identifiers,
  the readers of the two legacy spec files (read and unmarshal), the creation of the
  Artifactory service manager, the two build look-ups and the artifact search (with the
  conversion of its result rows).
\<close>

record SourceBuildSpec =
  sb_Name :: string
  sb_Number :: string
  sb_Project :: string
  sb_IncludeDependencies :: bool

record SourceReleaseBundleSpec =
  srb_Name :: string
  srb_Version :: string
  srb_Project :: string

record Collaborators =
  GetBuildInfoRepositoryByProject :: "string \<Rightarrow> string"
  ParseNameAndVersion :: "string \<Rightarrow> bool \<Rightarrow> (string \<times> string) \<times> error option"
  ReadBuildsSpec :: "string \<Rightarrow> error + SourceBuildSpec list"
  ReadReleaseBundlesSpec :: "string \<Rightarrow> error + SourceReleaseBundleSpec list"
  CreateServiceManager :: "error option"
  GetBuildNameAndNumberFromBuildIdentifier ::
    "string \<Rightarrow> string \<Rightarrow> (string \<times> string) \<times> error option"
  GetLatestBuildNumberFromArtifactory :: "string \<Rightarrow> string \<Rightarrow> string \<times> error option"
  SearchFilesBySpecs :: "File list \<Rightarrow> error + ArtifactSource list"

fun buildRbBuildsSourcesLoop ::
  "Collaborators \<Rightarrow> string list \<Rightarrow> string \<Rightarrow> BuildSource list \<Rightarrow> log
     \<Rightarrow> BuildSource list \<times> log" where
  "buildRbBuildsSourcesLoop env [] projectKey buildSources lg = (buildSources, lg)"
| "buildRbBuildsSourcesLoop env (entry # entries) projectKey buildSources lg =
     (case parseKeyValueString entry lg of
        (buildInfoMap, lg') \<Rightarrow>
          (let includeDepStr = mapGet buildInfoMap ''include-deps'';
               includeDep = (case strconv_ParseBool includeDepStr of
                               Some b \<Rightarrow> b | None \<Rightarrow> False)
           in buildRbBuildsSourcesLoop env entries projectKey
                (buildSources @
                 [\<lparr> BuildRepository = GetBuildInfoRepositoryByProject env projectKey,
                     BuildName = mapGet buildInfoMap ''name'',
                     BuildNumber = mapGet buildInfoMap ''id'',
                     IncludeDependencies = includeDep \<rparr>])
                lg'))"

definition buildRbBuildsSources ::
  "Collaborators \<Rightarrow> string \<Rightarrow> string \<Rightarrow> RbSource list \<Rightarrow> log \<Rightarrow> RbSource list \<times> log" where
  "buildRbBuildsSources env sourcesStr projectKey sources lg =
     (case buildRbBuildsSourcesLoop env (strings_Split sourcesStr (CHR '';'')) projectKey [] lg of
        (buildSources, lg') \<Rightarrow>
          (if length buildSources > 0
           then sources @ [emptyRbSource\<lparr>SourceType := ''builds'', Builds := buildSources\<rparr>]
           else sources,
           lg'))"

fun buildRbReleaseBundlesSourcesLoop ::
  "string list \<Rightarrow> string \<Rightarrow> ReleaseBundleSource list \<Rightarrow> log
     \<Rightarrow> ReleaseBundleSource list \<times> log" where
  "buildRbReleaseBundlesSourcesLoop [] projectKey releaseBundleSources lg =
     (releaseBundleSources, lg)"
| "buildRbReleaseBundlesSourcesLoop (entry # entries) projectKey releaseBundleSources lg =
     (case parseKeyValueString entry lg of
        (buildInfoMap, lg') \<Rightarrow>
          buildRbReleaseBundlesSourcesLoop entries projectKey
            (releaseBundleSources @
             [\<lparr> ProjectKey = projectKey,
                 RepositoryKey = [],
                 ReleaseBundleName = mapGet buildInfoMap ''name'',
                 ReleaseBundleVersion = mapGet buildInfoMap ''version'' \<rparr>])
            lg')"

definition buildRbReleaseBundlesSources ::
  "string \<Rightarrow> string \<Rightarrow> RbSource list \<Rightarrow> log \<Rightarrow> RbSource list \<times> log" where
  "buildRbReleaseBundlesSources sourcesStr projectKey sources lg =
     (case buildRbReleaseBundlesSourcesLoop (strings_Split sourcesStr (CHR '';'')) projectKey [] lg of
        (releaseBundleSources, lg') \<Rightarrow>
          (if length releaseBundleSources > 0
           then sources @ [emptyRbSource\<lparr>SourceType := ''release_bundles'',
                                          ReleaseBundles := releaseBundleSources\<rparr>]
           else sources,
           lg'))"

subsection \<open>The commands\<close>

text \<open>
  \<^verbatim>\<open>spec.SpecFiles\<close>; \<open>None\<close> is the nil slice. The server details of
  \<^verbatim>\<open>releaseBundleCmd\<close> are what the collaborators stand for and are not a field here.
  Both commands embed \<^verbatim>\<open>releaseBundleCmd\<close> and \<^verbatim>\<open>ReleaseBundleSources\<close> and hold a
  spec; the create command has four fields more, so its record extends the other.
\<close>

record SpecFiles =
  Files :: "File list option"

record releaseBundleCmd =
  releaseBundleName :: string
  releaseBundleVersion :: string
  sync :: bool
  rbProjectKey :: string

record ReleaseBundleUpdateCommand = releaseBundleCmd +
  spec :: "SpecFiles option"
  sourcesBuilds :: string
  sourcesReleaseBundles :: string

record ReleaseBundleCreateCommand = ReleaseBundleUpdateCommand +
  signingKeyName :: string
  draft :: bool
  buildsSpecPath :: string
  releaseBundlesSpecPath :: string

text \<open>Ranging over a slice: the nil slice has no elements.\<close>

definition elems :: "'a list option \<Rightarrow> 'a list" where
  "elems s = (case s of None \<Rightarrow> [] | Some xs \<Rightarrow> xs)"

text \<open>\<^verbatim>\<open>rbc.spec.Files\<close>: a nil \<^verbatim>\<open>spec\<close> is a nil-pointer panic.\<close>

definition specFiles :: "'a ReleaseBundleUpdateCommand_scheme \<Rightarrow> error + File list" where
  "specFiles rbc =
     (case spec rbc of
        None \<Rightarrow> Inl (Panic ''invalid memory address or nil pointer dereference'')
      | Some s \<Rightarrow> Inr (elems (Files s)))"

definition buildReleaseBundleSourcesParams ::
  "Collaborators \<Rightarrow> 'a ReleaseBundleCreateCommand_scheme \<Rightarrow> log \<Rightarrow> RbSource list \<times> log" where
  "buildReleaseBundleSourcesParams env rbc lg =
     (case (if sourcesBuilds rbc \<noteq> []
            then buildRbBuildsSources env (sourcesBuilds rbc) (rbProjectKey rbc) [] lg
            else ([], lg)) of
        (sources, lg') \<Rightarrow>
          if sourcesReleaseBundles rbc \<noteq> []
          then buildRbReleaseBundlesSources (sourcesReleaseBundles rbc) (rbProjectKey rbc) sources lg'
          else (sources, lg'))"

definition buildSourcesFromCommandFlags ::
  "Collaborators \<Rightarrow> 'a ReleaseBundleUpdateCommand_scheme \<Rightarrow> log \<Rightarrow> RbSource list \<times> log" where
  "buildSourcesFromCommandFlags env rbu lg =
     (case (if sourcesBuilds rbu \<noteq> []
            then buildRbBuildsSources env (sourcesBuilds rbu) (rbProjectKey rbu) [] lg
            else ([], lg)) of
        (sources, lg') \<Rightarrow>
          if sourcesReleaseBundles rbu \<noteq> []
          then buildRbReleaseBundlesSources (sourcesReleaseBundles rbu) (rbProjectKey rbu) sources lg'
          else (sources, lg'))"

subsection \<open>Sources from the spec\<close>

definition getArtifactFilesFromSpec :: "File list \<Rightarrow> File list" where
  "getArtifactFilesFromSpec files = filter (\<lambda>file. Pattern file \<noteq> []) files"

text \<open>
  The converters return their partial payload together with an error; every caller drops
  the payload then, so the model returns the error alone.
\<close>

fun convertSpecToReleaseBundlesSource ::
  "Collaborators \<Rightarrow> File list \<Rightarrow> error + ReleaseBundleSource list" where
  "convertSpecToReleaseBundlesSource env [] = Inr []"
| "convertSpecToReleaseBundlesSource env (file # files) =
     (if Bundle file = [] then convertSpecToReleaseBundlesSource env files
      else (case ParseNameAndVersion env (Bundle file) False of
              (_, Some err) \<Rightarrow> Inl err
            | ((bundleName, bundleVersion), None) \<Rightarrow>
                if bundleName = [] \<or> bundleVersion = []
                then Inl (Err (''invalid release bundle source was provided. Both name and version are mandatory. Provided name: ''
                               @ [CHR 0x27] @ bundleName @ [CHR 0x27] @ '', version: ''
                               @ [CHR 0x27] @ bundleVersion @ [CHR 0x27]))
                else (case convertSpecToReleaseBundlesSource env files of
                        Inl err \<Rightarrow> Inl err
                      | Inr releaseBundles \<Rightarrow>
                          Inr (\<lparr> ProjectKey = Project file,
                                  RepositoryKey = [],
                                  ReleaseBundleName = bundleName,
                                  ReleaseBundleVersion = bundleVersion \<rparr> # releaseBundles))))"

definition getBuildDetailsFromIdentifier ::
  "Collaborators \<Rightarrow> string \<Rightarrow> string \<Rightarrow> error + string \<times> string" where
  "getBuildDetailsFromIdentifier env buildIdentifier project =
     (case CreateServiceManager env of
        Some err \<Rightarrow> Inl err
      | None \<Rightarrow>
          (case GetBuildNameAndNumberFromBuildIdentifier env buildIdentifier project of
             (_, Some err) \<Rightarrow> Inl err
           | ((buildName, buildNumber), None) \<Rightarrow>
               if buildName = [] \<or> buildNumber = []
               then Inl (Err (''could not identify a build info by the '' @ [CHR 0x27]
                              @ buildIdentifier @ [CHR 0x27] @ '' identifier in artifactory''))
               else Inr (buildName, buildNumber)))"

fun convertSpecToBuildsSource :: "Collaborators \<Rightarrow> File list \<Rightarrow> error + BuildSource list" where
  "convertSpecToBuildsSource env [] = Inr []"
| "convertSpecToBuildsSource env (file # files) =
     (if Build file = [] then convertSpecToBuildsSource env files
      else (case getBuildDetailsFromIdentifier env (Build file) (Project file) of
              Inl err \<Rightarrow> Inl err
            | Inr (buildName, buildNumber) \<Rightarrow>
                (case IsIncludeDeps file False of
                   (_, Some err) \<Rightarrow> Inl err
                 | (isIncludeDeps', None) \<Rightarrow>
                     (case convertSpecToBuildsSource env files of
                        Inl err \<Rightarrow> Inl err
                      | Inr builds \<Rightarrow>
                          Inr (\<lparr> BuildRepository =
                                    GetBuildInfoRepositoryByProject env (Project file),
                                  BuildName = buildName,
                                  BuildNumber = buildNumber,
                                  IncludeDependencies = isIncludeDeps' \<rparr> # builds)))))"








text \<open>The artifact search of either command; the search and the reading of its result rows
  are the collaborator's.\<close>

definition createArtifactSourceFromSpec ::
  "Collaborators \<Rightarrow> 'a ReleaseBundleUpdateCommand_scheme \<Rightarrow> error + ArtifactSource list" where
  "createArtifactSourceFromSpec env rbc =
     (case CreateServiceManager env of
        Some err \<Rightarrow> Inl err
      | None \<Rightarrow>
          (case specFiles rbc of
             Inl panic \<Rightarrow> Inl panic
           | Inr files \<Rightarrow> SearchFilesBySpecs env (getArtifactFilesFromSpec files)))"















subsection \<open>The update command\<close>

fun convertSpecToSourcesLoop ::
  "Collaborators \<Rightarrow> 'a ReleaseBundleUpdateCommand_scheme \<Rightarrow> SourceType list
     \<Rightarrow> (SourceType \<Rightarrow> bool) \<Rightarrow> RbSource list \<Rightarrow> error + RbSource list" where
  "convertSpecToSourcesLoop env rbu [] handledSources sources = Inr sources"
| "convertSpecToSourcesLoop env rbu (sourceType # rest) handledSources sources =
     (if handledSources sourceType then convertSpecToSourcesLoop env rbu rest handledSources sources
      else (case (if sourceType = services_ReleaseBundles
                  then (case specFiles rbu of
                          Inl panic \<Rightarrow> Inl panic
                        | Inr files \<Rightarrow>
                            (case convertSpecToReleaseBundlesSource env files of
                               Inl err \<Rightarrow> Inl err
                             | Inr releaseBundles \<Rightarrow>
                                 if length releaseBundles > 0
                                 then Inr (sources @
                                           [emptyRbSource\<lparr>SourceType := services_ReleaseBundles,
                                                          ReleaseBundles := releaseBundles\<rparr>])
                                 else Inr sources))
                  else if sourceType = services_Builds
                  then (case specFiles rbu of
                          Inl panic \<Rightarrow> Inl panic
                        | Inr files \<Rightarrow>
                            (case convertSpecToBuildsSource env files of
                               Inl err \<Rightarrow> Inl err
                             | Inr builds \<Rightarrow>
                                 if length builds > 0
                                 then Inr (sources @
                                           [emptyRbSource\<lparr>SourceType := services_Builds,
                                                          Builds := builds\<rparr>])
                                 else Inr sources))
                  else if sourceType = services_Artifacts
                  then (case createArtifactSourceFromSpec env rbu of
                          Inl err \<Rightarrow> Inl err
                        | Inr artifacts \<Rightarrow>
                            if length artifacts > 0
                            then Inr (sources @
                                      [emptyRbSource\<lparr>SourceType := services_Artifacts,
                                                     Artifacts := artifacts\<rparr>])
                            else Inr sources)
                  else Inl (Err (''unexpected source type: '' @ sourceType))) of
              Inl err \<Rightarrow> Inl err
            | Inr sources' \<Rightarrow>
                convertSpecToSourcesLoop env rbu rest (handledSources(sourceType := True)) sources'))"

definition convertSpecToSources ::
  "Collaborators \<Rightarrow> 'a ReleaseBundleUpdateCommand_scheme \<Rightarrow> SourceType list
     \<Rightarrow> error + RbSource list" where
  "convertSpecToSources env rbu detectedSources =
     convertSpecToSourcesLoop env rbu detectedSources (\<lambda>_. False) []"

definition buildSourcesFromSpec ::
  "Collaborators \<Rightarrow> 'a ReleaseBundleUpdateCommand_scheme \<Rightarrow> error + RbSource list" where
  "buildSourcesFromSpec env rbu =
     (case specFiles rbu of
        Inl panic \<Rightarrow> Inl panic
      | Inr files \<Rightarrow>
          (case detectSourceTypesFromSpec files True of
             Inl err \<Rightarrow> Inl err
           | Inr detectedSources \<Rightarrow>
               (case validateCreationSources detectedSources True of
                  Some err \<Rightarrow> Inl err
                | None \<Rightarrow> convertSpecToSources env rbu detectedSources)))"

definition getAddSources ::
  "Collaborators \<Rightarrow> 'a ReleaseBundleUpdateCommand_scheme \<Rightarrow> log
     \<Rightarrow> (error + RbSource list) \<times> log" where
  "getAddSources env rbu lg =
     (if sourcesBuilds rbu \<noteq> [] \<or> sourcesReleaseBundles rbu \<noteq> []
      then (case buildSourcesFromCommandFlags env rbu lg of
              (sources, lg') \<Rightarrow> (Inr sources, lg'))
      else if spec rbu = None \<or> (case spec rbu of None \<Rightarrow> True | Some s \<Rightarrow> Files s = None)
      then (Inl (Err ''no spec file or source flags provided''), lg)
      else (buildSourcesFromSpec env rbu, lg))"

subsection \<open>The creation spec of the command-line layer\<close>

text \<open>
  \<^verbatim>\<open>components.Context\<close>: the flags that were given, with their values. The names of the
  \<^verbatim>\<open>flagkit\<close> package are parameters of the model, as are the spec reader, the spec
  constructor and the project getter, which are the core library's.
\<close>

record Context =
  stringFlags :: "string \<rightharpoonup> string"
  boolFlags :: "string \<rightharpoonup> bool"

definition IsFlagSet :: "Context \<Rightarrow> string \<Rightarrow> bool" where
  "IsFlagSet c flagName = (stringFlags c flagName \<noteq> None \<or> boolFlags c flagName \<noteq> None)"

definition GetStringFlagValue :: "Context \<Rightarrow> string \<Rightarrow> string" where
  "GetStringFlagValue c flagName = mapGet (stringFlags c) flagName"

record flagkit =
  flagkit_Builds :: string
  flagkit_ReleaseBundles :: string
  flagkit_SourceTypeReleaseBundles :: string
  flagkit_SourceTypeBuilds :: string
  flagkit_BuildName :: string
  flagkit_BuildNumber :: string

record CliCollaborators =
  environ :: "string \<rightharpoonup> string"
  GetSpec :: "Context \<Rightarrow> bool \<Rightarrow> bool \<Rightarrow> SpecFiles option \<times> error option"
  CreateSpecFromBuildNameNumberAndProject ::
    "string \<Rightarrow> string \<Rightarrow> string \<Rightarrow> SpecFiles option \<times> error option"
  GetProject :: "Context \<Rightarrow> string"

text \<open>Modelled from the spec: the constants \<^verbatim>\<open>coreutils.BuildName\<close> and
  \<^verbatim>\<open>coreutils.BuildNumber\<close> of the core library are the names of the environment
  variables \<^verbatim>\<open>JFROG_CLI_BUILD_NAME\<close> and \<^verbatim>\<open>JFROG_CLI_BUILD_NUMBER\<close>.\<close>

definition coreutils_BuildName :: string where
  "coreutils_BuildName = ''JFROG_CLI_BUILD_NAME''"

definition coreutils_BuildNumber :: string where
  "coreutils_BuildNumber = ''JFROG_CLI_BUILD_NUMBER''"

text \<open>\<^verbatim>\<open>os.Getenv\<close>: the empty string for a variable that is not set.\<close>

definition os_Getenv :: "CliCollaborators \<Rightarrow> string \<Rightarrow> string" where
  "os_Getenv cli key = mapGet (environ cli) key"

definition getStringFlagOrEnv :: "CliCollaborators \<Rightarrow> Context \<Rightarrow> string \<Rightarrow> string \<Rightarrow> string" where
  "getStringFlagOrEnv cli c flag envVar =
     (if IsFlagSet c flag then GetStringFlagValue c flag else os_Getenv cli envVar)"

definition creationSpecErrMsg :: string where
  "creationSpecErrMsg =
     ''either the --spec flag must be provided, or both --build-name and --build-number flags (or their corresponding environment variables JFROG_CLI_BUILD_NAME and JFROG_CLI_BUILD_NUMBER) must be set''"

definition getReleaseBundleCreationSpec ::
  "flagkit \<Rightarrow> CliCollaborators \<Rightarrow> Context \<Rightarrow> SpecFiles option \<times> error option" where
  "getReleaseBundleCreationSpec fk cli c =
     (if IsFlagSet c (flagkit_Builds fk) \<or> IsFlagSet c (flagkit_ReleaseBundles fk)
      then (None, None)
      else if IsFlagSet c (flagkit_SourceTypeReleaseBundles fk)
              \<or> IsFlagSet c (flagkit_SourceTypeBuilds fk)
      then (None, None)
      else if IsFlagSet c ''spec'' then GetSpec cli c True False
      else (let buildName = getStringFlagOrEnv cli c (flagkit_BuildName fk) coreutils_BuildName;
                buildNumber = getStringFlagOrEnv cli c (flagkit_BuildNumber fk) coreutils_BuildNumber
            in if buildName \<noteq> [] \<and> buildNumber \<noteq> []
               then CreateSpecFromBuildNameNumberAndProject cli buildName buildNumber
                      (GetProject cli c)
               else (None, Some (Err creationSpecErrMsg))))"

subsection \<open>Example values\<close>

text \<open>Two release-bundle references, one with a project; two sets of collaborators, one
  answering and one offline; a spec with one build group; an update and a create command
  with both source flags; the flag names, the command-line collaborators and a context
  built from its string flags.\<close>

definition rbA :: ReleaseBundleSource where
  "rbA = \<lparr> ProjectKey = ''project1'', RepositoryKey = [], ReleaseBundleName = ''bundle1'',
           ReleaseBundleVersion = ''1.0.0'' \<rparr>"
definition rbB :: ReleaseBundleSource where
  "rbB = \<lparr> ProjectKey = [], RepositoryKey = ''existing-repo'', ReleaseBundleName = ''bundle2'',
           ReleaseBundleVersion = ''2.0.0'' \<rparr>"

definition envA :: Collaborators where
  "envA = \<lparr> GetBuildInfoRepositoryByProject =
              (\<lambda>p. (if p \<noteq> [] \<and> p \<noteq> ''default'' then p else ''artifactory'') @ ''-build-info''),
            ParseNameAndVersion = (\<lambda>i l. ((takeWhile (\<lambda>c. c \<noteq> CHR ''/'') i,
                                             drop 1 (dropWhile (\<lambda>c. c \<noteq> CHR ''/'') i)), None)),
            ReadBuildsSpec = (\<lambda>p. Inl (Err ''no such file'')),
            ReadReleaseBundlesSpec = (\<lambda>p. Inl (Err ''no such file'')),
            CreateServiceManager = None,
            GetBuildNameAndNumberFromBuildIdentifier =
              (\<lambda>b p. ((takeWhile (\<lambda>c. c \<noteq> CHR ''/'') b,
                        drop 1 (dropWhile (\<lambda>c. c \<noteq> CHR ''/'') b)), None)),
            GetLatestBuildNumberFromArtifactory = (\<lambda>n p. ([], None)),
            SearchFilesBySpecs = (\<lambda>fs. Inr []) \<rparr>"


definition specBuild :: SpecFiles where
  "specBuild = \<lparr> Files = Some [emptyFile\<lparr>Build := ''n/1''\<rparr>] \<rparr>"

definition cmdU :: ReleaseBundleUpdateCommand where
  "cmdU = \<lparr> releaseBundleName = ''rb'', releaseBundleVersion = ''1'', sync = False,
            rbProjectKey = ''proj'', spec = None, sourcesBuilds = ''name=b1,id=5'',
            sourcesReleaseBundles = ''name=rb1,version=1.0'' \<rparr>"

definition cmdC :: ReleaseBundleCreateCommand where
  "cmdC = \<lparr> releaseBundleName = ''rb'', releaseBundleVersion = ''1'', sync = False,
            rbProjectKey = ''proj'', spec = None, sourcesBuilds = ''name=b1,id=5'',
            sourcesReleaseBundles = ''name=rb1,version=1.0'', signingKeyName = [], draft = False,
            buildsSpecPath = [], releaseBundlesSpecPath = [] \<rparr>"

definition fkA :: flagkit where
  "fkA = \<lparr> flagkit_Builds = ''builds'', flagkit_ReleaseBundles = ''release-bundles'',
           flagkit_SourceTypeReleaseBundles = ''source-type-release-bundles'',
           flagkit_SourceTypeBuilds = ''source-type-builds'',
           flagkit_BuildName = ''build-name'', flagkit_BuildNumber = ''build-number'' \<rparr>"

definition cliA :: CliCollaborators where
  "cliA = \<lparr> environ = [''JFROG_CLI_BUILD_NUMBER'' \<mapsto> ''2.0.0''],
            GetSpec = (\<lambda>c a b. (Some specBuild, None)),
            CreateSpecFromBuildNameNumberAndProject =
              (\<lambda>n m p. (Some \<lparr>Files = Some [emptyFile\<lparr>Build := n @ ''/'' @ m, Project := p\<rparr>]\<rparr>, None)),
            GetProject = (\<lambda>c. mapGet (stringFlags c) ''project'') \<rparr>"

definition ctx :: "(string \<times> string) list \<Rightarrow> Context" where
  "ctx fs = \<lparr> stringFlags = map_of fs, boolFlags = Map.empty \<rparr>"

section \<open>Properties\<close>

lemmas file_eval = validateFile_def emptyFile_def IsRecursive_def StringToBool_def isUnsupported_def
   IsExcludeArtifacts_def IsSymlinks_def IsExplode_def IsBypassArchiveInspection_def IsTransitive_def
   SumTrueValues_def isAql_def isBuild_def isBundle_def isPattern_def isPackage_def isIncludeDeps_def
   IsIncludeDeps_def isProject_def isExclusions_def isProps_def isExcludeProps_def
   validateCreationSource_def strconv_ParseBool_def

lemmas type_names = services_Aql_def services_Artifacts_def services_Builds_def
   services_ReleaseBundles_def services_Packages_def

lemma validateFile_several:
  assumes "1 < SumTrueValues [isAql f, isBuild f, isBundle f, isPattern f]"
  shows "snd (validateFile f False) \<noteq> None"
  using assms by (simp add: validateFile_def split: prod.splits option.splits)

lemma validateFile_one:
  assumes "\<not> isUnsupported f" and "IsRecursive f True = (r, None)"
    and "SumTrueValues [isAql f, isBuild f, isBundle f, isPattern f] = 1"
    and "isAql f \<longrightarrow> \<not> isIncludeDeps f \<and> \<not> isProject f \<and> \<not> isExclusions f
            \<and> \<not> isProps f \<and> \<not> isExcludeProps f \<and> r"
    and "isBuild f \<longrightarrow> \<not> isExclusions f \<and> \<not> isProps f \<and> \<not> isExcludeProps f \<and> r"
    and "isBundle f \<longrightarrow> \<not> isIncludeDeps f \<and> \<not> isExclusions f \<and> \<not> isProps f
            \<and> \<not> isExcludeProps f \<and> r"
    and "isPattern f \<longrightarrow> \<not> isIncludeDeps f \<and> \<not> isProject f"
  shows "validateFile f False =
           (if isAql f then services_Aql else if isBuild f then services_Builds
            else if isBundle f then services_ReleaseBundles else services_Artifacts, None)"
  using assms
  by (auto simp add: validateFile_def SumTrueValues_def validateCreationSource_def split: if_splits)

text \<open>
  C1 (with the condition it needs). For a file group without any always-unsupported field and
  with multi-source support inactive: when more than one of aql, build, bundle and pattern is
  populated, \<open>validateFile\<close> returns an error; when exactly one is populated, the
  \<^verbatim>\<open>recursive\<close> value is valid and no field that the matched kind forbids is set, it
  returns the matching source type and no error.
\<close>

theorem validateFile_exclusive:
  assumes "\<not> isUnsupported f"
  shows "(1 < SumTrueValues [isAql f, isBuild f, isBundle f, isPattern f]
            \<longrightarrow> snd (validateFile f False) \<noteq> None)
       \<and> (SumTrueValues [isAql f, isBuild f, isBundle f, isPattern f] = 1
            \<and> IsRecursive f True = (r, None)
            \<and> (isAql f \<longrightarrow> \<not> isIncludeDeps f \<and> \<not> isProject f \<and> \<not> isExclusions f
                  \<and> \<not> isProps f \<and> \<not> isExcludeProps f \<and> r)
            \<and> (isBuild f \<longrightarrow> \<not> isExclusions f \<and> \<not> isProps f \<and> \<not> isExcludeProps f \<and> r)
            \<and> (isBundle f \<longrightarrow> \<not> isIncludeDeps f \<and> \<not> isExclusions f \<and> \<not> isProps f
                  \<and> \<not> isExcludeProps f \<and> r)
            \<and> (isPattern f \<longrightarrow> \<not> isIncludeDeps f \<and> \<not> isProject f)
            \<longrightarrow> validateFile f False =
                  (if isAql f then services_Aql else if isBuild f then services_Builds
                   else if isBundle f then services_ReleaseBundles else services_Artifacts, None))"
  using assms validateFile_several [of f] validateFile_one [of f r] by blast

theorem validateFile_exclusive_witness:
  "\<not> isUnsupported (emptyFile\<lparr>Build := ''name/number'', IncludeDeps := ''true'', Project := ''project''\<rparr>)
   \<and> validateFile (emptyFile\<lparr>Build := ''name/number'', IncludeDeps := ''true'', Project := ''project''\<rparr>) False
       = (''builds'', None)
   \<and> snd (validateFile (emptyFile\<lparr>Aql_ItemsFind := ''abc'', Build := ''name/number''\<rparr>) False) \<noteq> None"
proof -
  let ?f = "emptyFile\<lparr>Build := ''name/number'', IncludeDeps := ''true'', Project := ''project''\<rparr>"
  let ?g = "emptyFile\<lparr>Aql_ItemsFind := ''abc'', Build := ''name/number''\<rparr>"
  have u: "\<not> isUnsupported ?f" by (simp add: file_eval)
  have v: "\<not> isUnsupported ?g" by (simp add: file_eval)
  have a: "validateFile ?f False = (''builds'', None)"
    using validateFile_exclusive [OF u, of True] by (simp add: file_eval type_names)
  have b: "snd (validateFile ?g False) \<noteq> None"
    using validateFile_exclusive [OF v, of True] by (simp add: file_eval)
  from u a b show ?thesis by blast
qed

text \<open>
  Exactly one discriminator is not enough: an aql group that also sets \<^verbatim>\<open>props\<close> is
  rejected, as the test \<^verbatim>\<open>invalid aql\<close> of the repository expects.
\<close>

theorem validateFile_exclusive_counterexample:
  "\<not> isUnsupported (emptyFile\<lparr>Aql_ItemsFind := ''abc'', Props := ''prop''\<rparr>)
   \<and> SumTrueValues [isAql (emptyFile\<lparr>Aql_ItemsFind := ''abc'', Props := ''prop''\<rparr>),
                    isBuild (emptyFile\<lparr>Aql_ItemsFind := ''abc'', Props := ''prop''\<rparr>),
                    isBundle (emptyFile\<lparr>Aql_ItemsFind := ''abc'', Props := ''prop''\<rparr>),
                    isPattern (emptyFile\<lparr>Aql_ItemsFind := ''abc'', Props := ''prop''\<rparr>)] = 1
   \<and> validateFile (emptyFile\<lparr>Aql_ItemsFind := ''abc'', Props := ''prop''\<rparr>) False
       = (''aql'', Some (Err ''aql creation source supports no other fields''))"
  by (simp add: file_eval type_names)

lemmas sources_eval = validateCreationSources_def generateSingleCreationSourceErr_def
   ListToText_def missingCreationSourcesErrMsg_def multipleCreationSourcesErrMsg_def
   singleAqlErrMsg_def unsupportedCreationSourceMethod_def

lemma loop_multi:
  "validateCreationSourcesLoop detected True ds n = Inr (n + count_list ds services_Aql)"
  by (induction ds arbitrary: n) simp_all

lemma loop_uniform:
  "\<forall>y\<in>set ds. y = detected ! 0 \<and> y \<noteq> services_Packages \<Longrightarrow>
   validateCreationSourcesLoop detected False ds n = Inr (n + count_list ds services_Aql)"
  by (induction ds arbitrary: n) simp_all

lemma loop_stop:
  "\<forall>y\<in>set pre. y = detected ! 0 \<and> y \<noteq> services_Packages \<Longrightarrow>
   validateCreationSourcesLoop detected False (pre @ x # rest) n =
     (if x = services_Packages then Inl (Err unsupportedCreationSourceMethod)
      else if x \<noteq> detected ! 0 then Inl (generateSingleCreationSourceErr detected)
      else validateCreationSourcesLoop detected False rest
             (n + count_list (pre @ [x]) services_Aql))"
  by (induction pre arbitrary: n) (simp_all add: Let_def)

lemma loop_packages:
  "services_Packages \<in> set ds \<Longrightarrow> \<exists>e. validateCreationSourcesLoop detected False ds n = Inl e"
  by (induction ds arbitrary: n) (auto simp add: Let_def)

lemma generateSingleCreationSourceErr_not_single:
  "generateSingleCreationSourceErr ds \<noteq> Err singleAqlErrMsg"
  by (simp add: generateSingleCreationSourceErr_def ListToText_def singleAqlErrMsg_def
       multipleCreationSourcesErrMsg_def)

lemma loop_error_not_single:
  "validateCreationSourcesLoop detected fl ds n = Inl e \<Longrightarrow> e \<noteq> Err singleAqlErrMsg"
proof (induction ds arbitrary: n)
  case Nil
  then show ?case by simp
next
  case (Cons d ds)
  then show ?case
    using generateSingleCreationSourceErr_not_single [of detected]
    by (auto simp add: Let_def unsupportedCreationSourceMethod_def singleAqlErrMsg_def
          split: if_splits)
qed

lemma loop_count:
  "validateCreationSourcesLoop detected fl ds n = Inr m \<Longrightarrow> m = n + count_list ds services_Aql"
proof (induction ds arbitrary: n)
  case Nil
  then show ?case by simp
next
  case (Cons d ds)
  from Cons.prems have
    "validateCreationSourcesLoop detected fl ds (if d = services_Aql then n + 1 else n) = Inr m"
    by (simp add: Let_def split: if_splits)
  from Cons.IH [OF this] show ?case by simp
qed

text \<open>
  C2 (with the condition it needs). \<open>[Builds, Packages]\<close> is rejected as unsupported when
  multi-source support is inactive and accepted when it is active. With support inactive a
  list that contains Packages is always rejected; the error is the unsupported-method error
  when every element before the first Packages equals the first element of the list.
\<close>
theorem validateCreationSources_packages:
  "validateCreationSources [services_Builds, services_Packages] False
     = Some (Err unsupportedCreationSourceMethod)
   \<and> validateCreationSources [services_Builds, services_Packages] True = None
   \<and> (services_Packages \<in> set ds \<longrightarrow>
        validateCreationSources ds False \<noteq> None
        \<and> ((\<forall>y \<in> set (takeWhile (\<lambda>d. d \<noteq> services_Packages) ds). y = ds ! 0)
             \<longrightarrow> validateCreationSources ds False = Some (Err unsupportedCreationSourceMethod)))"
proof (intro conjI impI)
  show "validateCreationSources [services_Builds, services_Packages] False
          = Some (Err unsupportedCreationSourceMethod)"
    by (simp add: validateCreationSources_def type_names)
  show "validateCreationSources [services_Builds, services_Packages] True = None"
    by (simp add: validateCreationSources_def type_names)
next
  assume p: "services_Packages \<in> set ds"
  then have ne: "length ds \<noteq> 0" by auto
  from loop_packages [OF p] obtain e where
    "validateCreationSourcesLoop ds False ds 0 = Inl e" by blast
  with ne show "validateCreationSources ds False \<noteq> None"
    by (simp add: validateCreationSources_def)
next
  assume p: "services_Packages \<in> set ds"
    and u: "\<forall>y \<in> set (takeWhile (\<lambda>d. d \<noteq> services_Packages) ds). y = ds ! 0"
  let ?pre = "takeWhile (\<lambda>d. d \<noteq> services_Packages) ds"
  let ?post = "dropWhile (\<lambda>d. d \<noteq> services_Packages) ds"
  from p have "?post \<noteq> []" by simp
  moreover have "hd ?post = services_Packages"
    using p hd_dropWhile [of "\<lambda>d. d \<noteq> services_Packages" ds] by auto
  ultimately obtain rest where post: "?post = services_Packages # rest"
    by (cases ?post) auto
  have ds: "ds = ?pre @ services_Packages # rest"
    using takeWhile_dropWhile_id [of "\<lambda>d. d \<noteq> services_Packages" ds] post by simp
  have pre: "\<forall>y\<in>set ?pre. y = ds ! 0 \<and> y \<noteq> services_Packages"
    using u by (auto dest: set_takeWhileD)
  have "validateCreationSourcesLoop ds False (?pre @ services_Packages # rest) 0
          = Inl (Err unsupportedCreationSourceMethod)"
    using loop_stop [OF pre, of services_Packages rest 0] by simp
  then have "validateCreationSourcesLoop ds False ds 0 = Inl (Err unsupportedCreationSourceMethod)"
    using ds by simp
  moreover from p have "length ds \<noteq> 0" by auto
  ultimately show "validateCreationSources ds False = Some (Err unsupportedCreationSourceMethod)"
    by (simp add: validateCreationSources_def)
qed

theorem validateCreationSources_packages_witness:
  "services_Packages \<in> set [services_Builds, services_Builds, services_Packages, services_Aql]
   \<and> validateCreationSources [services_Builds, services_Builds, services_Packages, services_Aql] False
       = Some (Err ''creation source 'package' is not supported in current version'')"
  using validateCreationSources_packages
          [of "[services_Builds, services_Builds, services_Packages, services_Aql]"]
  by (simp add: type_names unsupportedCreationSourceMethod_def)

text \<open>
  A differing element before the first Packages wins: the loop returns at the first
  offending position.
\<close>

theorem validateCreationSources_packages_counterexample:
  "services_Packages \<in> set [services_Aql, services_Builds, services_Packages]
   \<and> validateCreationSources [services_Aql, services_Builds, services_Packages] False
       = Some (Err (multipleCreationSourcesErrMsg @ '' 'aql, builds and packages'' @ [CHR 0x27]))
   \<and> validateCreationSources [services_Aql, services_Builds, services_Packages] False
       \<noteq> Some (Err unsupportedCreationSourceMethod)"
  by (simp add: sources_eval type_names)

text \<open>
  C3 (as the code has it). With multi-source support inactive, a list whose first element
  that differs from the head comes before any Packages element is rejected with the
  "multiple creation sources" error; its message lists every detected type name in the order
  of the list, repetitions included, joined with commas and a final "and". A spec with one
  aql group and one build group gives \<open>'aql and builds'\<close>.
\<close>
theorem validateCreationSources_multiple:
  assumes "pre \<noteq> []" and "\<forall>y \<in> set pre. y = first \<and> y \<noteq> services_Packages"
    and "x \<noteq> first" and "x \<noteq> services_Packages"
  shows "validateCreationSources (pre @ x # rest) False
           = Some (Err (multipleCreationSourcesErrMsg @ '' '' @ [CHR 0x27]
                        @ strings_Join (butlast (pre @ x # rest)) '', '' @ '' and ''
                        @ last (pre @ x # rest) @ [CHR 0x27]))
       \<and> validateAndIdentifyRbCreationSpec
            [emptyFile\<lparr>Aql_ItemsFind := ''x''\<rparr>, emptyFile\<lparr>Build := ''n/1''\<rparr>] False
           = Inl (Err (multipleCreationSourcesErrMsg @ '' 'aql and builds'' @ [CHR 0x27]))"
proof
  let ?ds = "pre @ x # rest"
  from assms(1) obtain p ps where pre: "pre = p # ps" by (cases pre) auto
  with assms(2) have first: "?ds ! 0 = first" by simp
  have u: "\<forall>y\<in>set pre. y = ?ds ! 0 \<and> y \<noteq> services_Packages"
    using assms(2) first by simp
  have "validateCreationSourcesLoop ?ds False ?ds 0 = Inl (generateSingleCreationSourceErr ?ds)"
    using loop_stop [OF u, of x rest 0] assms(3,4) first by simp
  moreover have "length ?ds \<noteq> 0" by simp
  moreover have "length ?ds \<noteq> 1" using pre by simp
  moreover have "take (length ?ds - 1) ?ds = butlast ?ds" by (simp add: butlast_conv_take)
  moreover have "?ds ! (length ?ds - 1) = last ?ds" by (simp add: last_conv_nth)
  ultimately show "validateCreationSources ?ds False
           = Some (Err (multipleCreationSourcesErrMsg @ '' '' @ [CHR 0x27]
                        @ strings_Join (butlast ?ds) '', '' @ '' and ''
                        @ last ?ds @ [CHR 0x27]))"
    by (simp only: validateCreationSources_def generateSingleCreationSourceErr_def ListToText_def
          if_False sum.case append_assoc)
  show "validateAndIdentifyRbCreationSpec
            [emptyFile\<lparr>Aql_ItemsFind := ''x''\<rparr>, emptyFile\<lparr>Build := ''n/1''\<rparr>] False
           = Inl (Err (multipleCreationSourcesErrMsg @ '' 'aql and builds'' @ [CHR 0x27]))"
    by (simp add: validateAndIdentifyRbCreationSpec_def file_eval sources_eval type_names)
qed

theorem validateCreationSources_multiple_witness:
  "validateCreationSources ([services_Aql] @ services_Artifacts # [services_Builds]) False
     = Some (Err (multipleCreationSourcesErrMsg @ '' 'aql, artifacts and builds'' @ [CHR 0x27]))"
proof -
  have "validateCreationSources ([services_Aql] @ services_Artifacts # [services_Builds]) False
     = Some (Err (multipleCreationSourcesErrMsg @ '' '' @ [CHR 0x27]
                        @ strings_Join (butlast ([services_Aql] @ services_Artifacts # [services_Builds])) '', '' @ '' and ''
                        @ last ([services_Aql] @ services_Artifacts # [services_Builds]) @ [CHR 0x27]))"
    using validateCreationSources_multiple
          [of "[services_Aql]" services_Aql services_Artifacts "[services_Builds]"]
    by (simp add: type_names)
  then show ?thesis by (simp add: type_names)
qed

text \<open>
  The claim as first stated fails twice: a Packages element that differs from the head gives
  the unsupported-method error, and repeated names are not removed from the message.
\<close>

theorem validateCreationSources_multiple_counterexample:
  "(\<exists>d \<in> set [services_Builds, services_Packages]. d \<noteq> [services_Builds, services_Packages] ! 0)
   \<and> validateCreationSources [services_Builds, services_Packages] False
       = Some (Err unsupportedCreationSourceMethod)
   \<and> (\<exists>d \<in> set [services_Aql, services_Aql, services_Builds].
         d \<noteq> [services_Aql, services_Aql, services_Builds] ! 0)
   \<and> validateCreationSources [services_Aql, services_Aql, services_Builds] False
       = Some (Err (multipleCreationSourcesErrMsg @ '' 'aql, aql and builds'' @ [CHR 0x27]))"
  by (simp add: sources_eval type_names)

text \<open>
  C7 (with the condition it needs). More than one AQL element gives the single-aql error
  in multi-source mode always, and in non-multi-source mode when all elements are AQL;
  with at most one AQL element that error is never returned, in either mode.
\<close>
theorem validateCreationSources_single_aql:
  "(1 < count_list ds services_Aql \<longrightarrow>
      validateCreationSources ds True = Some (Err singleAqlErrMsg))
   \<and> (1 < count_list ds services_Aql \<and> (\<forall>d \<in> set ds. d = services_Aql) \<longrightarrow>
      validateCreationSources ds False = Some (Err singleAqlErrMsg))
   \<and> (count_list ds services_Aql \<le> 1 \<longrightarrow>
      validateCreationSources ds fl \<noteq> Some (Err singleAqlErrMsg))"
proof (intro conjI impI)
  assume c: "1 < count_list ds services_Aql"
  then have "length ds \<noteq> 0" by auto
  with c show "validateCreationSources ds True = Some (Err singleAqlErrMsg)"
    by (simp add: validateCreationSources_def loop_multi)
next
  assume a: "1 < count_list ds services_Aql \<and> (\<forall>d \<in> set ds. d = services_Aql)"
  then have ne: "ds \<noteq> []" by auto
  then have "ds ! 0 = services_Aql" using a by (cases ds) auto
  moreover have "services_Aql \<noteq> services_Packages" by (simp add: type_names)
  ultimately have "\<forall>y\<in>set ds. y = ds ! 0 \<and> y \<noteq> services_Packages"
    using a by auto
  from loop_uniform [OF this, of 0] a ne
  show "validateCreationSources ds False = Some (Err singleAqlErrMsg)"
    by (simp add: validateCreationSources_def)
next
  assume c: "count_list ds services_Aql \<le> 1"
  show "validateCreationSources ds fl \<noteq> Some (Err singleAqlErrMsg)"
  proof (cases "validateCreationSourcesLoop ds fl ds 0")
    case (Inl e)
    with loop_error_not_single [OF Inl] show ?thesis
      by (simp add: validateCreationSources_def missingCreationSourcesErrMsg_def singleAqlErrMsg_def)
  next
    case (Inr m)
    with loop_count [OF Inr] c show ?thesis
      by (simp add: validateCreationSources_def missingCreationSourcesErrMsg_def singleAqlErrMsg_def)
  qed
qed

theorem validateCreationSources_single_aql_witness:
  "validateCreationSources [services_Aql, services_Builds, services_Aql] True
     = Some (Err ''only a single aql query can be provided'')
   \<and> validateCreationSources [services_Aql, services_Aql] False
     = Some (Err ''only a single aql query can be provided'')
   \<and> validateCreationSources [services_Aql, services_Builds] True
     \<noteq> Some (Err ''only a single aql query can be provided'')"
  using validateCreationSources_single_aql [of "[services_Aql, services_Builds, services_Aql]"]
    validateCreationSources_single_aql [of "[services_Aql, services_Aql]"]
    validateCreationSources_single_aql [of "[services_Aql, services_Builds]" True]
  by (simp add: type_names singleAqlErrMsg_def)

text \<open>
  In non-multi-source mode a differing element is reported first.
\<close>

theorem validateCreationSources_single_aql_counterexample:
  "1 < count_list [services_Aql, services_Aql, services_Builds] services_Aql
   \<and> validateCreationSources [services_Aql, services_Aql, services_Builds] False
       = Some (Err (multipleCreationSourcesErrMsg @ '' 'aql, aql and builds'' @ [CHR 0x27]))
   \<and> validateCreationSources [services_Aql, services_Aql, services_Builds] False
       \<noteq> Some (Err singleAqlErrMsg)"
  by (simp add: sources_eval type_names)

text \<open>
  With multi-source support inactive, a file group whose only populated discriminator is the
  package field is rejected by \<open>validateFile\<close> with the error of a group that names no
  source, and so is a spec that starts with such a group.
\<close>

lemma validateFile_package_only:
  assumes "isPackage f" and "\<not> isAql f" and "\<not> isBuild f" and "\<not> isBundle f" and "\<not> isPattern f"
  shows "snd (validateFile f False) \<noteq> None
       \<and> snd (validateFile f False) \<noteq> Some (Err unsupportedCreationSourceMethod)
       \<and> fst (validateFile f False) = []
       \<and> (\<not> isUnsupported f \<and> snd (IsRecursive f True) = None \<longrightarrow>
            validateFile f False = ([], Some (Err exactlyOneCreationSourceErrMsg))
            \<and> validateAndIdentifyRbCreationSpec (f # fs) False
                = Inl (Err exactlyOneCreationSourceErrMsg))"
  using assms
  by (auto simp add: validateFile_def SumTrueValues_def validateAndIdentifyRbCreationSpec_def
        unsupportedCreationSourceMethod_def unsupportedFieldsErrMsg_def
        exactlyOneCreationSourceErrMsg_def
        split: prod.splits option.splits)

text \<open>
  With multi-source support inactive, \<open>validateFile\<close> accepts the four older kinds only,
  so the detected list of a spec never holds Packages, and none of the errors on the way is
  the error about packages.
\<close>

lemma validateFile_accepts:
  "validateFile f False = (t, None) \<Longrightarrow>
   t = services_Aql \<or> t = services_Builds \<or> t = services_ReleaseBundles \<or> t = services_Artifacts"
  by (auto simp add: validateFile_def SumTrueValues_def split: prod.splits option.splits if_splits)

lemma validateFile_error_other:
  "validateFile f False = (t, Some e) \<Longrightarrow> e \<noteq> Err unsupportedCreationSourceMethod"
  by (auto simp add: validateFile_def validateCreationSource_def unsupportedCreationSourceMethod_def
        unsupportedFieldsErrMsg_def exactlyOneCreationSourceErrMsg_def
        split: prod.splits option.splits if_splits)

lemma detect_no_packages:
  "detectSourceTypesFromSpec files False = Inr ds \<Longrightarrow> services_Packages \<notin> set ds"
proof (induction files arbitrary: ds)
  case Nil
  then show ?case by simp
next
  case (Cons f files)
  obtain t e where v: "validateFile f False = (t, e)" by (cases "validateFile f False")
  with Cons.prems have e: "e = None" by (cases e) simp_all
  with v Cons.prems obtain ds' where
    d: "detectSourceTypesFromSpec files False = Inr ds'" and ds: "ds = t # ds'"
    by (cases "detectSourceTypesFromSpec files False") auto
  from validateFile_accepts v e have "t \<noteq> services_Packages"
    by (auto simp add: type_names)
  with Cons.IH [OF d] ds show ?case by simp
qed

lemma detect_error_other:
  "detectSourceTypesFromSpec files False = Inl e \<Longrightarrow> e \<noteq> Err unsupportedCreationSourceMethod"
proof (induction files)
  case Nil
  then show ?case by simp
next
  case (Cons f files)
  obtain t e' where v: "validateFile f False = (t, e')" by (cases "validateFile f False")
  show ?case
  proof (cases e')
    case None
    with v Cons.prems have "detectSourceTypesFromSpec files False = Inl e"
      by (cases "detectSourceTypesFromSpec files False") auto
    with Cons.IH show ?thesis by simp
  next
    case (Some err)
    with v Cons.prems have "e = err" by simp
    with validateFile_error_other v Some show ?thesis by blast
  qed
qed

lemma loop_without_packages:
  "services_Packages \<notin> set ds \<Longrightarrow> validateCreationSourcesLoop detected False ds n = Inl e \<Longrightarrow>
   e = generateSingleCreationSourceErr detected"
proof (induction ds arbitrary: n)
  case Nil
  then show ?case by simp
next
  case (Cons d ds)
  show ?case
  proof (cases "d \<noteq> detected ! 0")
    case True
    with Cons.prems show ?thesis by (auto simp add: Let_def)
  next
    case False
    with Cons.prems have
      "validateCreationSourcesLoop detected False ds (if d = services_Aql then n + 1 else n) = Inl e"
      by (auto simp add: Let_def)
    with Cons.IH Cons.prems(1) show ?thesis by simp
  qed
qed

lemma generateSingleCreationSourceErr_not_unsupported:
  "generateSingleCreationSourceErr ds \<noteq> Err unsupportedCreationSourceMethod"
  by (simp add: generateSingleCreationSourceErr_def ListToText_def
        unsupportedCreationSourceMethod_def multipleCreationSourcesErrMsg_def)

lemma validateCreationSources_without_packages:
  assumes "services_Packages \<notin> set ds"
  shows "validateCreationSources ds False \<noteq> Some (Err unsupportedCreationSourceMethod)"
proof (cases "validateCreationSourcesLoop ds False ds 0")
  case (Inl e)
  with loop_without_packages [OF assms Inl] generateSingleCreationSourceErr_not_unsupported [of ds]
  show ?thesis
    by (simp add: validateCreationSources_def missingCreationSourcesErrMsg_def
          unsupportedCreationSourceMethod_def)
next
  case (Inr m)
  then show ?thesis
    by (simp add: validateCreationSources_def missingCreationSourcesErrMsg_def
          unsupportedCreationSourceMethod_def singleAqlErrMsg_def)
qed

lemma spec_never_unsupported:
  "validateAndIdentifyRbCreationSpec files False \<noteq> Inl (Err unsupportedCreationSourceMethod)"
proof (cases "detectSourceTypesFromSpec files False")
  case (Inl e)
  with detect_error_other [OF Inl] show ?thesis
    by (simp add: validateAndIdentifyRbCreationSpec_def unsupportedCreationSourceMethod_def)
next
  case (Inr ds)
  with validateCreationSources_without_packages [OF detect_no_packages [OF Inr]] show ?thesis
    by (auto simp add: validateAndIdentifyRbCreationSpec_def unsupportedCreationSourceMethod_def
          split: option.splits)
qed

text \<open>
  C4. The code has the distinct error for a package source that the version does not
  support, and \<open>validateCreationSources\<close> returns it for the list \<open>[Packages]\<close>. Spec
  validation does not get there: with multi-source support inactive the package-only group
  \<open>{package: "abc", version: "ver"}\<close> is rejected by \<open>validateFile\<close> with "exactly one
  creation source should be defined per file", the error of the empty group, and no spec
  at all makes \<open>validateAndIdentifyRbCreationSpec\<close> return the error about packages.
\<close>

theorem package_error_unreachable:
  "validateFile (emptyFile\<lparr>Package := ''abc'', Version := ''ver''\<rparr>) False
     = ([], Some (Err exactlyOneCreationSourceErrMsg))
   \<and> validateAndIdentifyRbCreationSpec [emptyFile\<lparr>Package := ''abc'', Version := ''ver''\<rparr>] False
     = Inl (Err exactlyOneCreationSourceErrMsg)
   \<and> validateFile (emptyFile\<lparr>Package := ''abc'', Version := ''ver''\<rparr>) False
     = validateFile emptyFile False
   \<and> exactlyOneCreationSourceErrMsg \<noteq> unsupportedCreationSourceMethod
   \<and> validateCreationSources [services_Packages] False
     = Some (Err unsupportedCreationSourceMethod)
   \<and> validateAndIdentifyRbCreationSpec files False \<noteq> Inl (Err unsupportedCreationSourceMethod)"
proof (intro conjI)
  show "validateAndIdentifyRbCreationSpec files False \<noteq> Inl (Err unsupportedCreationSourceMethod)"
    by (rule spec_never_unsupported)
  show "validateCreationSources [services_Packages] False
     = Some (Err unsupportedCreationSourceMethod)"
    by (simp add: validateCreationSources_def)
  show "exactlyOneCreationSourceErrMsg \<noteq> unsupportedCreationSourceMethod"
    by (simp add: exactlyOneCreationSourceErrMsg_def unsupportedCreationSourceMethod_def)
qed (simp_all add: validateAndIdentifyRbCreationSpec_def file_eval)

lemma updateReleaseBundles_length: "length (updateReleaseBundles rbs) = length rbs"
  by (induction rbs) simp_all

lemma updateReleaseBundles_nth:
  "j < length rbs \<Longrightarrow>
   updateReleaseBundles rbs ! j =
     (if ProjectKey (rbs ! j) \<noteq> []
      then (rbs ! j)\<lparr>RepositoryKey := ProjectKey (rbs ! j) @ ''-release-bundles-v2''\<rparr>
      else rbs ! j)"
proof (induction rbs arbitrary: j)
  case Nil
  then show ?case by simp
next
  case (Cons rb rbs)
  then show ?case by (cases j) simp_all
qed

lemma updateSources_length: "length (updateSources ss) = length ss"
  by (induction ss) simp_all

lemma updateSources_nth:
  "i < length ss \<Longrightarrow>
   updateSources ss ! i = (ss ! i)\<lparr>ReleaseBundles := updateReleaseBundles (ReleaseBundles (ss ! i))\<rparr>"
proof (induction ss arbitrary: i)
  case Nil
  then show ?case by simp
next
  case (Cons s ss)
  then show ?case by (cases i) simp_all
qed

text \<open>
  C5. \<open>updateReleaseBundleRepoKeyWithProject\<close> returns its list unchanged when the list is
  empty or its first element is not of type \<open>release_bundles\<close>. Otherwise the list keeps its
  length, every element keeps every field but its release bundles, the release bundles
  keep their number, and each release bundle gets the repository key
  \<open>ProjectKey @ "-release-bundles-v2"\<close> when its project key is not empty and is unchanged
  when it is empty.
\<close>

theorem updateReleaseBundleRepoKeyWithProject_frame:
  "(sources = [] \<or> SourceType (sources ! 0) \<noteq> ''release_bundles''
      \<longrightarrow> updateReleaseBundleRepoKeyWithProject sources = sources)
   \<and> (sources \<noteq> [] \<and> SourceType (sources ! 0) = ''release_bundles'' \<longrightarrow>
        length (updateReleaseBundleRepoKeyWithProject sources) = length sources
        \<and> (\<forall>i < length sources.
              updateReleaseBundleRepoKeyWithProject sources ! i
                = (sources ! i)\<lparr>ReleaseBundles :=
                     ReleaseBundles (updateReleaseBundleRepoKeyWithProject sources ! i)\<rparr>
              \<and> length (ReleaseBundles (updateReleaseBundleRepoKeyWithProject sources ! i))
                  = length (ReleaseBundles (sources ! i))
              \<and> (\<forall>j < length (ReleaseBundles (sources ! i)).
                    ReleaseBundles (updateReleaseBundleRepoKeyWithProject sources ! i) ! j
                      = (if ProjectKey (ReleaseBundles (sources ! i) ! j) \<noteq> []
                         then (ReleaseBundles (sources ! i) ! j)
                                \<lparr>RepositoryKey := ProjectKey (ReleaseBundles (sources ! i) ! j)
                                                   @ ''-release-bundles-v2''\<rparr>
                         else ReleaseBundles (sources ! i) ! j))))"
  by (auto simp add: updateReleaseBundleRepoKeyWithProject_def updateSources_length
        updateSources_nth updateReleaseBundles_length updateReleaseBundles_nth)

theorem updateReleaseBundleRepoKeyWithProject_frame_witness:
  "updateReleaseBundleRepoKeyWithProject
     [emptyRbSource\<lparr>SourceType := ''builds''\<rparr>,
      emptyRbSource\<lparr>SourceType := ''release_bundles'', ReleaseBundles := [rbA, rbB]\<rparr>]
     = [emptyRbSource\<lparr>SourceType := ''builds''\<rparr>,
        emptyRbSource\<lparr>SourceType := ''release_bundles'', ReleaseBundles := [rbA, rbB]\<rparr>]
   \<and> ReleaseBundles (updateReleaseBundleRepoKeyWithProject
        [emptyRbSource\<lparr>SourceType := ''release_bundles'', ReleaseBundles := [rbA, rbB]\<rparr>] ! 0) ! 0
       = rbA\<lparr>RepositoryKey := ''project1-release-bundles-v2''\<rparr>
   \<and> ReleaseBundles (updateReleaseBundleRepoKeyWithProject
        [emptyRbSource\<lparr>SourceType := ''release_bundles'', ReleaseBundles := [rbA, rbB]\<rparr>] ! 0) ! 1
       = rbB"
proof -
  let ?m = "[emptyRbSource\<lparr>SourceType := ''builds''\<rparr>,
      emptyRbSource\<lparr>SourceType := ''release_bundles'', ReleaseBundles := [rbA, rbB]\<rparr>]"
  let ?s = "[emptyRbSource\<lparr>SourceType := ''release_bundles'', ReleaseBundles := [rbA, rbB]\<rparr>]"
  have a: "updateReleaseBundleRepoKeyWithProject ?m = ?m"
    using updateReleaseBundleRepoKeyWithProject_frame [of ?m]
    by (simp add: emptyRbSource_def)
  have s: "?s \<noteq> [] \<and> SourceType (?s ! 0) = ''release_bundles''"
    by (simp add: emptyRbSource_def)
  have i: "(0::nat) < length ?s" by simp
  have j0: "(0::nat) < length (ReleaseBundles (?s ! 0))" by (simp add: emptyRbSource_def)
  have j1: "(1::nat) < length (ReleaseBundles (?s ! 0))" by (simp add: emptyRbSource_def)
  from updateReleaseBundleRepoKeyWithProject_frame [of ?s] s i
  have all: "\<forall>j < length (ReleaseBundles (?s ! 0)).
                    ReleaseBundles (updateReleaseBundleRepoKeyWithProject ?s ! 0) ! j
                      = (if ProjectKey (ReleaseBundles (?s ! 0) ! j) \<noteq> []
                         then (ReleaseBundles (?s ! 0) ! j)
                                \<lparr>RepositoryKey := ProjectKey (ReleaseBundles (?s ! 0) ! j)
                                                   @ ''-release-bundles-v2''\<rparr>
                         else ReleaseBundles (?s ! 0) ! j)"
    by blast
  have b: "ReleaseBundles (updateReleaseBundleRepoKeyWithProject ?s ! 0) ! 0
             = rbA\<lparr>RepositoryKey := ''project1-release-bundles-v2''\<rparr>"
    using all j0 by (simp add: emptyRbSource_def rbA_def)
  have c: "ReleaseBundles (updateReleaseBundleRepoKeyWithProject ?s ! 0) ! 1 = rbB"
    using all j1 by (simp add: emptyRbSource_def rbB_def rbA_def)
  from a b c show ?thesis by blast
qed

lemma strings_Split_nonempty: "strings_Split s sep \<noteq> []"
  by (induction s) (auto split: list.splits)

lemma parseLoop_log:
  "snd (parseKeyValueStringLoop pairs result lg) =
     lg @ replicate (length (filter (\<lambda>pair. CHR ''='' \<notin> set pair) pairs))
            ''Inappropriate format, it should be k=v''"
  by (induction pairs arbitrary: result lg)
     (simp_all add: Let_def strings_SplitN2_def replicate_append_same)

lemma parseLoop_map:
  "fst (parseKeyValueStringLoop pairs result lg) =
     fst (parseKeyValueStringLoop (filter (\<lambda>pair. CHR ''='' \<in> set pair) pairs) result [])"
  by (induction pairs arbitrary: result lg)
     (simp_all add: Let_def strings_SplitN2_def)

lemma buildsLoop_length:
  "length (fst (buildRbBuildsSourcesLoop env entries projectKey buildSources lg))
     = length buildSources + length entries"
  by (induction entries arbitrary: buildSources lg)
     (simp_all add: Let_def split: prod.splits)

lemma bundlesLoop_length:
  "length (fst (buildRbReleaseBundlesSourcesLoop entries projectKey releaseBundleSources lg))
     = length releaseBundleSources + length entries"
  by (induction entries arbitrary: releaseBundleSources lg)
     (simp_all add: Let_def split: prod.splits)

lemma buildRbBuildsSources_appends:
  "fst (buildRbBuildsSources env sourcesStr projectKey sources lg) =
     sources @ [emptyRbSource\<lparr>SourceType := ''builds'',
        Builds := fst (buildRbBuildsSourcesLoop env (strings_Split sourcesStr (CHR '';''))
                         projectKey [] lg)\<rparr>]"
proof -
  have "0 < length (strings_Split sourcesStr (CHR '';''))"
    using strings_Split_nonempty [of sourcesStr "CHR '';''"] by simp
  then have "0 < length (fst (buildRbBuildsSourcesLoop env (strings_Split sourcesStr (CHR '';''))
                         projectKey [] lg))"
    by (simp add: buildsLoop_length)
  then show ?thesis
    by (cases "buildRbBuildsSourcesLoop env (strings_Split sourcesStr (CHR '';'')) projectKey [] lg")
       (simp add: buildRbBuildsSources_def)
qed

lemma buildRbReleaseBundlesSources_appends:
  "fst (buildRbReleaseBundlesSources sourcesStr projectKey sources lg) =
     sources @ [emptyRbSource\<lparr>SourceType := ''release_bundles'',
        ReleaseBundles := fst (buildRbReleaseBundlesSourcesLoop (strings_Split sourcesStr (CHR '';''))
                         projectKey [] lg)\<rparr>]"
proof -
  have "0 < length (strings_Split sourcesStr (CHR '';''))"
    using strings_Split_nonempty [of sourcesStr "CHR '';''"] by simp
  then have "0 < length (fst (buildRbReleaseBundlesSourcesLoop (strings_Split sourcesStr (CHR '';''))
                         projectKey [] lg))"
    by (simp add: bundlesLoop_length)
  then show ?thesis
    by (cases "buildRbReleaseBundlesSourcesLoop (strings_Split sourcesStr (CHR '';'')) projectKey [] lg")
       (simp add: buildRbReleaseBundlesSources_def)
qed

lemma trim_b1: "strings_TrimSpace ''b1'' = ''b1''"
  by code_simp
lemma trim_name: "strings_TrimSpace ''name'' = ''name''"
  by code_simp
lemma trim_id: "strings_TrimSpace ''id'' = ''id''"
  by code_simp
lemma trim_5: "strings_TrimSpace ''5'' = ''5''"
  by code_simp

lemma parse_example:
  "parseKeyValueString ''name=b1,id=5'' lg = ([''name'' \<mapsto> ''b1'', ''id'' \<mapsto> ''5''], lg)"
  by (simp add: parseKeyValueString_def strings_SplitN2_def Let_def trim_b1 trim_name trim_id trim_5)

lemma builds_example:
  "buildRbBuildsSources env ''name=b1,id=5'' projectKey [] lg =
     ([emptyRbSource\<lparr>SourceType := ''builds'',
         Builds := [\<lparr> BuildRepository = GetBuildInfoRepositoryByProject env projectKey,
                      BuildName = ''b1'', BuildNumber = ''5'',
                      IncludeDependencies = False \<rparr>]\<rparr>], lg)"
  by (simp add: buildRbBuildsSources_def parse_example mapGet_def strconv_ParseBool_def)

text \<open>
  C9. Building the builds sources from a sources string always succeeds: the result is the
  given list followed by one source of type \<open>builds\<close> with one build per
  semicolon-separated entry, of which there is at least one. Within an entry the map is
  built from the pairs that contain \<open>=\<close> alone, and every other pair adds one warning to
  the log. For \<open>name=b1,id=5\<close> the result is one source of type builds with the single
  build \<open>b1\<close>, \<open>5\<close> and no warning.
\<close>

theorem buildRbBuildsSources_total:
  "fst (buildRbBuildsSources env sourcesStr projectKey sources lg) =
     sources @ [emptyRbSource\<lparr>SourceType := ''builds'',
        Builds := fst (buildRbBuildsSourcesLoop env (strings_Split sourcesStr (CHR '';''))
                         projectKey [] lg)\<rparr>]
   \<and> length (fst (buildRbBuildsSourcesLoop env (strings_Split sourcesStr (CHR '';''))
                         projectKey [] lg)) = length (strings_Split sourcesStr (CHR '';''))
   \<and> 0 < length (strings_Split sourcesStr (CHR '';''))
   \<and> parseKeyValueString entry lg =
        (fst (parseKeyValueStringLoop
                (filter (\<lambda>pair. CHR ''='' \<in> set pair) (strings_Split entry (CHR '','')))
                Map.empty []),
         lg @ replicate
                (length (filter (\<lambda>pair. CHR ''='' \<notin> set pair) (strings_Split entry (CHR '',''))))
                ''Inappropriate format, it should be k=v'')
   \<and> buildRbBuildsSources env ''name=b1,id=5'' projectKey [] lg =
        ([emptyRbSource\<lparr>SourceType := ''builds'',
            Builds := [\<lparr> BuildRepository = GetBuildInfoRepositoryByProject env projectKey,
                         BuildName = ''b1'', BuildNumber = ''5'',
                         IncludeDependencies = False \<rparr>]\<rparr>], lg)"
proof (intro conjI)
  show "parseKeyValueString entry lg =
        (fst (parseKeyValueStringLoop
                (filter (\<lambda>pair. CHR ''='' \<in> set pair) (strings_Split entry (CHR '','')))
                Map.empty []),
         lg @ replicate
                (length (filter (\<lambda>pair. CHR ''='' \<notin> set pair) (strings_Split entry (CHR '',''))))
                ''Inappropriate format, it should be k=v'')"
    using parseLoop_map [of "strings_Split entry (CHR '','')" Map.empty lg]
      parseLoop_log [of "strings_Split entry (CHR '','')" Map.empty lg]
    by (simp add: parseKeyValueString_def prod_eq_iff)
qed (simp_all add: buildRbBuildsSources_appends buildsLoop_length strings_Split_nonempty
       builds_example)

text \<open>
  C10. When both source flags are non-empty, the sources built from the flags, by the
  create command and by the update command alike, are two: a source of type \<open>builds\<close>
  followed by one of type \<open>release_bundles\<close>; \<open>updateReleaseBundleRepoKeyWithProject\<close>
  leaves such a list unchanged.
\<close>

theorem flag_sources_builds_first:
  assumes "sourcesBuilds rbc \<noteq> []" and "sourcesReleaseBundles rbc \<noteq> []"
    and "sourcesBuilds rbu \<noteq> []" and "sourcesReleaseBundles rbu \<noteq> []"
  shows "length (fst (buildReleaseBundleSourcesParams env rbc lg)) = 2
       \<and> SourceType (fst (buildReleaseBundleSourcesParams env rbc lg) ! 0) = ''builds''
       \<and> SourceType (fst (buildReleaseBundleSourcesParams env rbc lg) ! 1) = ''release_bundles''
       \<and> updateReleaseBundleRepoKeyWithProject (fst (buildReleaseBundleSourcesParams env rbc lg))
           = fst (buildReleaseBundleSourcesParams env rbc lg)
       \<and> length (fst (buildSourcesFromCommandFlags env rbu lg)) = 2
       \<and> SourceType (fst (buildSourcesFromCommandFlags env rbu lg) ! 0) = ''builds''
       \<and> SourceType (fst (buildSourcesFromCommandFlags env rbu lg) ! 1) = ''release_bundles''
       \<and> updateReleaseBundleRepoKeyWithProject (fst (buildSourcesFromCommandFlags env rbu lg))
           = fst (buildSourcesFromCommandFlags env rbu lg)"
proof -
  obtain s1 l1 where b1: "buildRbBuildsSources env (sourcesBuilds rbc) (rbProjectKey rbc) [] lg = (s1, l1)"
    by (cases "buildRbBuildsSources env (sourcesBuilds rbc) (rbProjectKey rbc) [] lg")
  obtain s2 l2 where b2: "buildRbBuildsSources env (sourcesBuilds rbu) (rbProjectKey rbu) [] lg = (s2, l2)"
    by (cases "buildRbBuildsSources env (sourcesBuilds rbu) (rbProjectKey rbu) [] lg")
  from b1 buildRbBuildsSources_appends [of env "sourcesBuilds rbc" "rbProjectKey rbc" "[]" lg]
  obtain x1 where s1: "s1 = [x1]" and t1: "SourceType x1 = ''builds''" by simp
  from b2 buildRbBuildsSources_appends [of env "sourcesBuilds rbu" "rbProjectKey rbu" "[]" lg]
  obtain x2 where s2: "s2 = [x2]" and t2: "SourceType x2 = ''builds''" by simp
  have c: "fst (buildReleaseBundleSourcesParams env rbc lg)
             = fst (buildRbReleaseBundlesSources (sourcesReleaseBundles rbc) (rbProjectKey rbc) [x1] l1)"
    using assms b1 s1 by (simp add: buildReleaseBundleSourcesParams_def)
  have u: "fst (buildSourcesFromCommandFlags env rbu lg)
             = fst (buildRbReleaseBundlesSources (sourcesReleaseBundles rbu) (rbProjectKey rbu) [x2] l2)"
    using assms b2 s2 by (simp add: buildSourcesFromCommandFlags_def)
  show ?thesis
    using t1 t2
    by (simp add: c u buildRbReleaseBundlesSources_appends updateReleaseBundleRepoKeyWithProject_def)
qed

theorem flag_sources_builds_first_witness:
  "sourcesBuilds cmdC \<noteq> [] \<and> sourcesReleaseBundles cmdC \<noteq> []
   \<and> sourcesBuilds cmdU \<noteq> [] \<and> sourcesReleaseBundles cmdU \<noteq> []
   \<and> SourceType (fst (buildReleaseBundleSourcesParams envA cmdC []) ! 0) = ''builds''
   \<and> updateReleaseBundleRepoKeyWithProject (fst (buildSourcesFromCommandFlags envA cmdU []))
           = fst (buildSourcesFromCommandFlags envA cmdU [])"
proof -
  have h: "sourcesBuilds cmdC \<noteq> []" "sourcesReleaseBundles cmdC \<noteq> []"
      "sourcesBuilds cmdU \<noteq> []" "sourcesReleaseBundles cmdU \<noteq> []"
    by (simp_all add: cmdC_def cmdU_def)
  from flag_sources_builds_first [OF h, of envA "[]"] h show ?thesis by blast
qed









lemma update_from_spec_example:
  "getAddSources envA
       (cmdU\<lparr>sourcesBuilds := [], sourcesReleaseBundles := [], spec := Some specBuild\<rparr>) []
     = (Inr [emptyRbSource\<lparr>SourceType := ''builds'',
               Builds := [\<lparr> BuildRepository = ''artifactory-build-info'', BuildName = ''n'',
                            BuildNumber = ''1'', IncludeDependencies = False \<rparr>]\<rparr>], [])"
  by code_simp

text \<open>
  C8 (with the condition it needs). When one of the flags for a builds spec, a
  release-bundles spec and the two multi-source flags is set, the function returns no spec
  and no error. When none of them is set: with the spec flag set, the creation spec is what
  the spec reader returns, whatever the build name and number are; with the spec flag not
  set and the build name or the build number empty (each taken from its flag when the flag
  is set, else from its environment variable), the result is the fixed error.
\<close>

theorem getReleaseBundleCreationSpec_precedence:
  "(IsFlagSet c (flagkit_Builds fk) \<or> IsFlagSet c (flagkit_ReleaseBundles fk)
      \<or> IsFlagSet c (flagkit_SourceTypeReleaseBundles fk)
      \<or> IsFlagSet c (flagkit_SourceTypeBuilds fk)
      \<longrightarrow> getReleaseBundleCreationSpec fk cli c = (None, None))
   \<and> (\<not> IsFlagSet c (flagkit_Builds fk) \<and> \<not> IsFlagSet c (flagkit_ReleaseBundles fk)
      \<and> \<not> IsFlagSet c (flagkit_SourceTypeReleaseBundles fk)
      \<and> \<not> IsFlagSet c (flagkit_SourceTypeBuilds fk)
      \<longrightarrow> (IsFlagSet c ''spec'' \<longrightarrow>
              getReleaseBundleCreationSpec fk cli c = GetSpec cli c True False)
          \<and> (\<not> IsFlagSet c ''spec''
              \<and> (getStringFlagOrEnv cli c (flagkit_BuildName fk) ''JFROG_CLI_BUILD_NAME'' = []
                   \<or> getStringFlagOrEnv cli c (flagkit_BuildNumber fk) ''JFROG_CLI_BUILD_NUMBER'' = [])
              \<longrightarrow> getReleaseBundleCreationSpec fk cli c = (None, Some (Err creationSpecErrMsg))))
   \<and> getStringFlagOrEnv cli c flag envVar
        = (if IsFlagSet c flag then GetStringFlagValue c flag
           else (case environ cli envVar of None \<Rightarrow> [] | Some v \<Rightarrow> v))"
  by (auto simp add: getReleaseBundleCreationSpec_def getStringFlagOrEnv_def os_Getenv_def
        mapGet_def coreutils_BuildName_def coreutils_BuildNumber_def Let_def)

lemmas cli_eval = fkA_def cliA_def ctx_def IsFlagSet_def GetStringFlagValue_def mapGet_def
  getStringFlagOrEnv_def os_Getenv_def specBuild_def

theorem getReleaseBundleCreationSpec_precedence_witness:
  "getReleaseBundleCreationSpec fkA cliA
     (ctx [(''spec'', ''s.json''), (''build-name'', ''n''), (''build-number'', ''1'')])
     = (Some specBuild, None)
   \<and> getReleaseBundleCreationSpec fkA cliA (ctx [(''build-number'', ''1'')])
     = (None, Some (Err ''either the --spec flag must be provided, or both --build-name and --build-number flags (or their corresponding environment variables JFROG_CLI_BUILD_NAME and JFROG_CLI_BUILD_NUMBER) must be set''))
   \<and> getStringFlagOrEnv cliA (ctx [(''build-name'', ''n'')]) ''build-number'' ''JFROG_CLI_BUILD_NUMBER''
     = ''2.0.0''
   \<and> IsFlagSet (ctx [(''spec'', ''s.json''), (''source-type-builds'', ''name=b1,id=5'')])
        (flagkit_SourceTypeBuilds fkA)
   \<and> getReleaseBundleCreationSpec fkA cliA
        (ctx [(''spec'', ''s.json''), (''source-type-builds'', ''name=b1,id=5'')])
     = (None, None)"
  using getReleaseBundleCreationSpec_precedence
          [of "ctx [(''spec'', ''s.json''), (''build-name'', ''n''), (''build-number'', ''1'')]" fkA cliA]
    getReleaseBundleCreationSpec_precedence [of "ctx [(''build-number'', ''1'')]" fkA cliA]
    getReleaseBundleCreationSpec_precedence
          [of "ctx [(''build-name'', ''n'')]" fkA cliA "''build-number''" "''JFROG_CLI_BUILD_NUMBER''"]
    getReleaseBundleCreationSpec_precedence
          [of "ctx [(''spec'', ''s.json''), (''source-type-builds'', ''name=b1,id=5'')]" fkA cliA]
  by (simp add: cli_eval creationSpecErrMsg_def)

text \<open>
  With the flag for a builds spec set, the spec flag is ignored and no error is returned.
\<close>

theorem getReleaseBundleCreationSpec_precedence_counterexample:
  "IsFlagSet (ctx [(''spec'', ''s.json''), (''builds'', ''b.json'')]) ''spec''
   \<and> GetSpec cliA (ctx [(''spec'', ''s.json''), (''builds'', ''b.json'')]) True False
       = (Some specBuild, None)
   \<and> getReleaseBundleCreationSpec fkA cliA (ctx [(''spec'', ''s.json''), (''builds'', ''b.json'')])
       = (None, None)
   \<and> \<not> IsFlagSet (ctx [(''builds'', ''b.json'')]) ''spec''
   \<and> getStringFlagOrEnv cliA (ctx [(''builds'', ''b.json'')]) (flagkit_BuildName fkA)
         ''JFROG_CLI_BUILD_NAME'' = []
   \<and> getReleaseBundleCreationSpec fkA cliA (ctx [(''builds'', ''b.json'')]) = (None, None)"
  by (simp add: cli_eval getReleaseBundleCreationSpec_def)

end
